theory Spec2Isabelle
  imports Complex_Main "HOL-Library.AList" "HOL-Library.Word"
begin

section \<open>Floating-point values as numpy and pandas see them\<close>

text \<open>
  A float64 is modelled by the real number it denotes, together with the three special
  values that the program produces and tests: pandas marks a missing table entry by NaN
  (\<open>isna\<close>), and numpy's division by zero yields an infinity or NaN instead of raising.
  Rounding, overflow and the sign of zero are not modelled: \<open>Fin 0\<close> stands for both
  zeros, and dividing by it behaves as dividing by \<open>+0.0\<close>.
\<close>

datatype fl = Fin real | PInf | NInf | NaN

fun fneg :: "fl \<Rightarrow> fl" where
  "fneg (Fin x) = Fin (- x)"
| "fneg PInf = NInf"
| "fneg NInf = PInf"
| "fneg NaN = NaN"

fun fadd :: "fl \<Rightarrow> fl \<Rightarrow> fl" where
  "fadd (Fin x) (Fin y) = Fin (x + y)"
| "fadd NaN _ = NaN"
| "fadd _ NaN = NaN"
| "fadd PInf NInf = NaN"
| "fadd NInf PInf = NaN"
| "fadd PInf _ = PInf"
| "fadd _ PInf = PInf"
| "fadd NInf _ = NInf"
| "fadd _ NInf = NInf"

definition fsub :: "fl \<Rightarrow> fl \<Rightarrow> fl" where
  "fsub x y = fadd x (fneg y)"

fun fmul :: "fl \<Rightarrow> fl \<Rightarrow> fl" where
  "fmul (Fin x) (Fin y) = Fin (x * y)"
| "fmul NaN _ = NaN"
| "fmul _ NaN = NaN"
| "fmul (Fin x) PInf = (if x = 0 then NaN else if 0 < x then PInf else NInf)"
| "fmul (Fin x) NInf = (if x = 0 then NaN else if 0 < x then NInf else PInf)"
| "fmul PInf (Fin y) = (if y = 0 then NaN else if 0 < y then PInf else NInf)"
| "fmul NInf (Fin y) = (if y = 0 then NaN else if 0 < y then NInf else PInf)"
| "fmul PInf PInf = PInf"
| "fmul NInf NInf = PInf"
| "fmul PInf NInf = NInf"
| "fmul NInf PInf = NInf"

fun fdiv :: "fl \<Rightarrow> fl \<Rightarrow> fl" where
  "fdiv (Fin x) (Fin y) =
     (if y = 0 then (if x = 0 then NaN else if 0 < x then PInf else NInf)
      else Fin (x / y))"
| "fdiv NaN _ = NaN"
| "fdiv _ NaN = NaN"
| "fdiv (Fin x) PInf = Fin 0"
| "fdiv (Fin x) NInf = Fin 0"
| "fdiv PInf (Fin y) = (if y < 0 then NInf else PInf)"
| "fdiv NInf (Fin y) = (if y < 0 then PInf else NInf)"
| "fdiv PInf PInf = NaN"
| "fdiv PInf NInf = NaN"
| "fdiv NInf PInf = NaN"
| "fdiv NInf NInf = NaN"

text \<open>\<open>10 ** x\<close>.\<close>

fun fpow10 :: "fl \<Rightarrow> fl" where
  "fpow10 (Fin x) = Fin (10 powr x)"
| "fpow10 PInf = PInf"
| "fpow10 NInf = Fin 0"
| "fpow10 NaN = NaN"

definition isna :: "fl \<Rightarrow> bool" where
  "isna x = (x = NaN)"


text \<open>
  \<open>np.sum\<close> of a numpy array adds all entries (NaN propagates; the empty sum is 0.0).
  \<open>np.sum\<close> of a pandas Series dispatches to \<open>Series.sum\<close>, which skips NaN entries.
\<close>

primrec np_sum :: "fl list \<Rightarrow> fl" where
  "np_sum [] = Fin 0"
| "np_sum (x # xs) = fadd x (np_sum xs)"

definition series_sum :: "fl list \<Rightarrow> fl" where
  "series_sum xs = np_sum (filter (\<lambda>x. \<not> isna x) xs)"

text \<open>Elementwise product and quotient of two arrays of one length.\<close>

definition vmul :: "fl list \<Rightarrow> fl list \<Rightarrow> fl list" where
  "vmul xs ys = map2 fmul xs ys"

definition vdiv :: "fl list \<Rightarrow> fl list \<Rightarrow> fl list" where
  "vdiv xs ys = map2 fdiv xs ys"

text \<open>The slices \<open>a[:-2]\<close> and \<open>a[-2:]\<close>.\<close>

definition but_last2 :: "'a list \<Rightarrow> 'a list" where
  "but_last2 xs = take (length xs - 2) xs"

definition last2 :: "'a list \<Rightarrow> 'a list" where
  "last2 xs = drop (length xs - 2) xs"

section \<open>Python numbers and the arrays pandas makes of them\<close>

text \<open>
  An entry of a Python list of numbers is an int or a float; the ints of the model are
  those in the range of int64. pandas stores a list of ints as an int64 array and a list
  with a float in it as a float64 array. \<open>np.sum\<close> of an int64 array is an int64: the
  sum wraps around.
\<close>

datatype pynum = PyInt "64 word" | PyFloat fl

datatype ndarray = Int64 "64 word list" | Float64 "fl list"

fun is_int :: "pynum \<Rightarrow> bool" where
  "is_int (PyInt _) = True"
| "is_int (PyFloat _) = False"

fun int_of :: "pynum \<Rightarrow> 64 word" where
  "int_of (PyInt w) = w"
| "int_of (PyFloat _) = 0"

definition float_of_int64 :: "64 word \<Rightarrow> fl" where
  "float_of_int64 w = Fin (real_of_int (sint w))"

fun float_of :: "pynum \<Rightarrow> fl" where
  "float_of (PyInt w) = float_of_int64 w"
| "float_of (PyFloat x) = x"

definition to_array :: "pynum list \<Rightarrow> ndarray" where
  "to_array xs =
     (if list_all is_int xs then Int64 (map int_of xs) else Float64 (map float_of xs))"

text \<open>The entries of an array as floats, the slice \<open>a[:-2]\<close> and \<open>np.sum\<close> of an array.\<close>

fun float_values :: "ndarray \<Rightarrow> fl list" where
  "float_values (Int64 ws) = map float_of_int64 ws"
| "float_values (Float64 xs) = xs"

fun array_but_last2 :: "ndarray \<Rightarrow> ndarray" where
  "array_but_last2 (Int64 ws) = Int64 (but_last2 ws)"
| "array_but_last2 (Float64 xs) = Float64 (but_last2 xs)"

fun np_sum_array :: "ndarray \<Rightarrow> fl" where
  "np_sum_array (Int64 ws) = float_of_int64 (sum_list ws)"
| "np_sum_array (Float64 xs) = np_sum xs"

section \<open>Errors, data frames, keyword arguments\<close>

datatype py_error = ValueError | KeyError string | AssertionError | IndexError

text \<open>
  A pandas DataFrame with float columns: the row labels and the columns by name. Every
  column of a DataFrame has as many entries as there are row labels. The columns of the
  table are float columns, and the frames considered have at least one row (on a frame
  without rows pandas takes the index from the list assigned to a column).
\<close>

record dataframe =
  index :: "string list"
  columns :: "(string \<times> fl list) list"

definition wf_dataframe :: "dataframe \<Rightarrow> bool" where
  "wf_dataframe df = list_all (\<lambda>(c, v). length v = length (index df)) (columns df)"

text \<open>\<open>df[c]\<close>: a missing column raises KeyError.\<close>

definition getitem :: "dataframe \<Rightarrow> string \<Rightarrow> py_error + fl list" where
  "getitem df c = (case map_of (columns df) c of None \<Rightarrow> Inl (KeyError c) | Some v \<Rightarrow> Inr v)"

text \<open>\<open>df[c] = v\<close> for a Python list \<open>v\<close>: pandas raises ValueError on a length mismatch.\<close>

definition setitem_list :: "dataframe \<Rightarrow> string \<Rightarrow> fl list \<Rightarrow> py_error + dataframe" where
  "setitem_list df c v =
     (if length v \<noteq> length (index df) then Inl ValueError
      else Inr (df\<lparr>columns := AList.update c v (columns df)\<rparr>))"

text \<open>\<open>df[c] = s\<close> for a Series \<open>s\<close> computed from columns of \<open>df\<close> itself.\<close>

definition setitem_series :: "dataframe \<Rightarrow> string \<Rightarrow> fl list \<Rightarrow> dataframe" where
  "setitem_series df c v = df\<lparr>columns := AList.update c v (columns df)\<rparr>"

text \<open>\<open>df.iloc[mask]\<close> for a boolean mask: the rows where the mask is true.\<close>

definition select :: "bool list \<Rightarrow> 'a list \<Rightarrow> 'a list" where
  "select msk xs = map snd (filter fst (zip msk xs))"

definition iloc :: "dataframe \<Rightarrow> bool list \<Rightarrow> dataframe" where
  "iloc df msk =
     \<lparr>index = select msk (index df),
      columns = map (\<lambda>(c, v). (c, select msk v)) (columns df)\<rparr>"

text \<open>
  \<open>s.count(sub)\<close> of Python's \<open>str\<close>: the number of non-overlapping occurrences, and
  \<open>len(s) + 1\<close> for the empty \<open>sub\<close>.
\<close>

function str_count :: "string \<Rightarrow> string \<Rightarrow> nat" where
  "str_count s sub =
     (if sub = [] then length s + 1
      else if length s < length sub then 0
      else if take (length sub) s = sub then 1 + str_count (drop (length sub) s) sub
      else str_count (tl s) sub)"
  by pat_completeness auto
termination
  by (relation "measure (\<lambda>(s, sub). length s)") (auto simp: neq_Nil_conv)

declare str_count.simps [simp del]

text \<open>
  The keyword arguments of the constructor. \<open>abundance\<close> is a reference to the caller's
  list object, held in a store of list objects, so that appending to it is visible to the
  caller. \<open>None\<close> says that the key is absent.
\<close>

type_synonym ref = nat
type_synonym heap = "ref \<Rightarrow> pynum list"

record kwargs =
  kw_abundance :: "ref option"
  kw_sequence :: "string option"
  kw_pka_data :: "string option"

record polyampholyte =
  mode :: string
  kwargs :: kwargs
  dataset :: dataframe
  amino_acid_sequence :: "string option"
  number_of_residues :: "nat option"
  pka_data :: string
  IEP_dataset :: dataframe

section \<open>Construction: \<open>initialize_dataset\<close>\<close>

text \<open>
  The table \<open>group_properties.amino_acids\<close> is a parameter of the model. Lines 54-75:
  the column \<open>abundance_input\<close> from the abundance list, which is extended in place, or
  from the counts of the first 20 row labels in the sequence.
\<close>

definition pad_abundance :: "nat \<Rightarrow> pynum list \<Rightarrow> pynum list" where
  "pad_abundance n abundance = abundance @ replicate (n - length abundance) (PyInt 0)"

definition count_residues :: "string list \<Rightarrow> string \<Rightarrow> pynum list" where
  "count_residues idx s =
     map (\<lambda>key. PyInt (of_nat (str_count s key))) (take 20 idx)
       @ [PyInt 0, PyInt 0, PyInt 1, PyInt 1]"

text \<open>
  \<open>self.dataset['abundance_input'] = abundance\<close>: the data frame gets the entries as
  floats; the array that pandas stores for the column, which line 83 sums, is returned
  beside it.
\<close>

definition assign_abundance :: "dataframe \<Rightarrow> pynum list \<Rightarrow> py_error + dataframe \<times> ndarray" where
  "assign_abundance ds abundance =
     (case setitem_list ds ''abundance_input'' (float_values (to_array abundance)) of
        Inl e \<Rightarrow> Inl e
      | Inr ds' \<Rightarrow> Inr (ds', to_array abundance))"

definition read_input ::
  "dataframe \<Rightarrow> kwargs \<Rightarrow> heap \<Rightarrow>
     (py_error + dataframe \<times> ndarray \<times> string option \<times> nat option) \<times> heap" where
  "read_input ds kw h =
     (case kw_abundance kw of
        Some r \<Rightarrow>
          (let abundance = pad_abundance (length (index ds)) (h r);
               h' = h(r := abundance)
           in (case assign_abundance ds abundance of
                 Inl e \<Rightarrow> (Inl e, h')
               | Inr (ds', arr) \<Rightarrow> (Inr (ds', arr, None, None), h')))
      | None \<Rightarrow>
          (case kw_sequence kw of
             Some s \<Rightarrow>
               (case assign_abundance ds (count_residues (index ds) s) of
                  Inl e \<Rightarrow> (Inl e, h)
                | Inr (ds', arr) \<Rightarrow> (Inr (ds', arr, Some s, Some (length s)), h))
           | None \<Rightarrow> (Inl ValueError, h)))"

text \<open>
  Lines 81-91: the columns \<open>abundance_norm\<close> and \<open>mass_percent\<close>. The divisor of line 83
  is \<open>np.sum\<close> of the stored array of \<open>abundance_input\<close> without its last two entries,
  an int64 for an int64 array; the division is a float division in either case.
\<close>

definition abundance_norm_of :: "ndarray \<Rightarrow> fl list" where
  "abundance_norm_of arr =
     map (\<lambda>x. fdiv x (np_sum_array (array_but_last2 arr))) (float_values arr)"

definition mass_percent_of :: "fl list \<Rightarrow> fl list \<Rightarrow> fl list" where
  "mass_percent_of a m = map (\<lambda>x. fdiv x (series_sum (vmul a m))) (vmul a m)"

definition add_normalized_columns :: "dataframe \<Rightarrow> ndarray \<Rightarrow> py_error + dataframe" where
  "add_normalized_columns ds arr =
     (case getitem ds ''abundance_input'' of
        Inl e \<Rightarrow> Inl e
      | Inr a \<Rightarrow>
          (let ds1 = setitem_series ds ''abundance_norm'' (abundance_norm_of arr)
           in (case getitem ds1 ''abundance_input'' of
                 Inl e \<Rightarrow> Inl e
               | Inr a1 \<Rightarrow>
                   (case getitem ds1 ''molar_mass'' of
                      Inl e \<Rightarrow> Inl e
                    | Inr m \<Rightarrow>
                        Inr (setitem_series ds1 ''mass_percent'' (mass_percent_of a1 m))))))"

text \<open>Lines 95-98: the pKa column, \<open>pka_bjellqvist\<close> unless the caller names one.\<close>

definition select_pka_data :: "kwargs \<Rightarrow> string" where
  "select_pka_data kw = (case kw_pka_data kw of Some s \<Rightarrow> s | None \<Rightarrow> ''pka_bjellqvist'')"

text \<open>Lines 102-103: the rows whose pKa under the chosen column is not NaN.\<close>

definition data_mask :: "fl list \<Rightarrow> bool list" where
  "data_mask v = map (\<lambda>x. \<not> isna x) v"

definition initialize_dataset ::
  "dataframe \<Rightarrow> string \<Rightarrow> kwargs \<Rightarrow> heap \<Rightarrow> (py_error + polyampholyte) \<times> heap" where
  "initialize_dataset amino_acids md kw h =
     (if md = ''protein'' then
        (case read_input amino_acids kw h of
           (Inl e, h') \<Rightarrow> (Inl e, h')
         | (Inr (ds0, arr, sq, nres), h') \<Rightarrow>
             (case add_normalized_columns ds0 arr of
                Inl e \<Rightarrow> (Inl e, h')
              | Inr ds \<Rightarrow>
                  (case getitem ds (select_pka_data kw) of
                     Inl e \<Rightarrow> (Inl e, h')
                   | Inr pk \<Rightarrow>
                       (Inr \<lparr>mode = md, kwargs = kw, dataset = ds,
                             amino_acid_sequence = sq, number_of_residues = nres,
                             pka_data = select_pka_data kw,
                             IEP_dataset = iloc ds (data_mask pk)\<rparr>, h'))))
      else (Inl ValueError, h))"

text \<open>Assigning the attribute \<open>pka_data\<close> of an instance, as the example script does.\<close>

definition set_pka_data :: "polyampholyte \<Rightarrow> string \<Rightarrow> polyampholyte" where
  "set_pka_data inst s = inst\<lparr>pka_data := s\<rparr>"

section \<open>Queries\<close>

text \<open>
  The summand of the charge, computed on whole columns as the source does:
  \<open>ci * an / (1 + 10 ** (ci * (pH - pk)))\<close>.
\<close>

definition charge_terms :: "fl list \<Rightarrow> fl list \<Rightarrow> fl list \<Rightarrow> fl \<Rightarrow> fl list" where
  "charge_terms ci an pk pH =
     vdiv (vmul ci an)
       (map (fadd (Fin 1)) (map fpow10 (vmul ci (map (fsub pH) pk))))"

definition calc_charge :: "polyampholyte \<Rightarrow> fl \<Rightarrow> py_error + fl" where
  "calc_charge inst pH =
     (case getitem (IEP_dataset inst) ''charge_indicator'' of
        Inl e \<Rightarrow> Inl e
      | Inr ci \<Rightarrow>
          (case getitem (IEP_dataset inst) ''abundance_norm'' of
             Inl e \<Rightarrow> Inl e
           | Inr an \<Rightarrow>
               (case getitem (IEP_dataset inst) (pka_data inst) of
                  Inl e \<Rightarrow> Inl e
                | Inr pk \<Rightarrow> Inr (np_sum (charge_terms ci an pk pH)))))"

text \<open>
  \<open>np.linspace(start, stop, num)\<close> with its default \<open>endpoint=True\<close>: a negative
  \<open>num\<close> raises ValueError; the samples are \<open>arange(num) * step + start\<close> with
  \<open>step = (stop - start) / (num - 1)\<close>, and the last one is overwritten by \<open>stop\<close>
  when there are at least two.
\<close>

definition linspace :: "fl \<Rightarrow> fl \<Rightarrow> int \<Rightarrow> py_error + fl list" where
  "linspace start stop num =
     (if num < 0 then Inl ValueError
      else
        (let n = nat num;
             dv = real_of_int (num - 1);
             delta = fsub stop start;
             y = map (\<lambda>i. Fin (real i)) [0..<n];
             y1 = (if 0 < dv then
                     (let step = fdiv delta (Fin dv)
                      in if step = Fin 0 then map (\<lambda>v. fmul (fdiv v (Fin dv)) delta) y
                         else map (\<lambda>v. fmul v step) y)
                   else map (\<lambda>v. fmul v delta) y);
             y2 = map (\<lambda>v. fadd v start) y1
         in Inr (if 1 < num then y2[n - 1 := stop] else y2)))"

text \<open>
  Lines 158-166. The column vector \<open>pH[:, np.newaxis]\<close> is broadcast against the pKa
  row: one row of the matrix for each sample, summed along \<open>axis=1\<close>.
\<close>

definition charge_matrix :: "fl list \<Rightarrow> fl list \<Rightarrow> fl list \<Rightarrow> fl list \<Rightarrow> fl list list" where
  "charge_matrix ci an pk pH =
     (let diff = map (\<lambda>p. map (fsub p) pk) pH;
          expo = map (vmul ci) diff;
          den = map (map (fadd (Fin 1))) (map (map fpow10) expo)
      in map (vdiv (vmul ci an)) den)"

definition calc_charge_curve ::
  "polyampholyte \<Rightarrow> fl list \<Rightarrow> int \<Rightarrow> py_error + fl list \<times> fl list" where
  "calc_charge_curve inst ph_range data_points =
     (if length ph_range < 2 then Inl IndexError
      else
        (case linspace (ph_range ! 0) (ph_range ! 1) data_points of
           Inl e \<Rightarrow> Inl e
         | Inr pH \<Rightarrow>
             (case getitem (IEP_dataset inst) ''charge_indicator'' of
                Inl e \<Rightarrow> Inl e
              | Inr ci \<Rightarrow>
                  (case getitem (IEP_dataset inst) ''abundance_norm'' of
                     Inl e \<Rightarrow> Inl e
                   | Inr an \<Rightarrow>
                       (case getitem (IEP_dataset inst) (pka_data inst) of
                          Inl e \<Rightarrow> Inl e
                        | Inr pk \<Rightarrow>
                            Inr (pH, map np_sum (charge_matrix ci an pk pH)))))))"

text \<open>
  Lines 186-190. \<open>scipy.optimize.brentq\<close> is a parameter: a solver takes the function,
  which may raise, and the two ends of the bracket. Only ValueError is caught.
\<close>

type_synonym solver = "(fl \<Rightarrow> py_error + fl) \<Rightarrow> fl \<Rightarrow> fl \<Rightarrow> py_error + fl"

definition calc_IEP :: "solver \<Rightarrow> polyampholyte \<Rightarrow> fl list \<Rightarrow> py_error + fl" where
  "calc_IEP brentq inst ph_range =
     (if length ph_range < 2 then Inl IndexError
      else
        (case brentq (calc_charge inst) (ph_range ! 0) (ph_range ! 1) of
           Inl ValueError \<Rightarrow> Inr NaN
         | Inl e \<Rightarrow> Inl e
         | Inr IEP \<Rightarrow> Inr IEP))"

text \<open>Lines 193-198. The sum is taken of a Series, so NaN products are skipped.\<close>

definition calc_molar_mass :: "polyampholyte \<Rightarrow> py_error + fl" where
  "calc_molar_mass inst =
     (if amino_acid_sequence inst = None then Inl AssertionError
      else
        (case getitem (dataset inst) ''abundance_input'' of
           Inl e \<Rightarrow> Inl e
         | Inr a \<Rightarrow>
             (case getitem (dataset inst) ''molar_mass_residue'' of
                Inl e \<Rightarrow> Inl e
              | Inr m \<Rightarrow> Inr (series_sum (vmul a m)))))"

text \<open>Lines 219-236.\<close>

definition calc_mean_residue_mw :: "polyampholyte \<Rightarrow> py_error + fl" where
  "calc_mean_residue_mw inst =
     (case getitem (dataset inst) ''molar_mass_residue'' of
        Inl e \<Rightarrow> Inl e
      | Inr m \<Rightarrow>
          (let mw_dataset = iloc (dataset inst) (data_mask m) in
           (case getitem mw_dataset ''molar_mass_residue'' of
              Inl e \<Rightarrow> Inl e
            | Inr mr \<Rightarrow>
                (case getitem mw_dataset ''abundance_norm'' of
                   Inl e \<Rightarrow> Inl e
                 | Inr an \<Rightarrow>
                     (let mean_residue_mw = np_sum (vmul (but_last2 mr) (but_last2 an)) in
                      if number_of_residues inst \<noteq> None then
                        (case getitem (dataset inst) ''molar_mass'' of
                           Inl e \<Rightarrow> Inl e
                         | Inr mm \<Rightarrow>
                             (case getitem (dataset inst) ''abundance_norm'' of
                                Inl e \<Rightarrow> Inl e
                              | Inr an_all \<Rightarrow>
                                  Inr (fadd mean_residue_mw
                                         (np_sum (vmul (last2 mm) (last2 an_all))))))
                      else Inr mean_residue_mw)))))"

section \<open>The specification's charge formula\<close>

text \<open>
  The specification's reading of the charge: the active groups are the rows of the table
  whose pKa under the selected scheme is defined, and the charge is the sum over the
  active groups \<open>g\<close> of
  \<open>charge_indicator[g] * abundance_norm[g] / (1 + 10^(charge_indicator[g] * (pH - pKa[g])))\<close>.
\<close>

definition column :: "dataframe \<Rightarrow> string \<Rightarrow> fl list" where
  "column df c = (case map_of (columns df) c of None \<Rightarrow> [] | Some v \<Rightarrow> v)"

definition active_groups :: "dataframe \<Rightarrow> string \<Rightarrow> nat list" where
  "active_groups df scheme =
     filter (\<lambda>g. \<not> isna (column df scheme ! g)) [0..<length (index df)]"

definition group_charge :: "dataframe \<Rightarrow> string \<Rightarrow> fl \<Rightarrow> nat \<Rightarrow> fl" where
  "group_charge df scheme pH g =
     (let ci = column df ''charge_indicator'' ! g;
          an = column df ''abundance_norm'' ! g;
          pKa = column df scheme ! g
      in fdiv (fmul ci an) (fadd (Fin 1) (fpow10 (fmul ci (fsub pH pKa)))))"

definition charge_spec :: "dataframe \<Rightarrow> string \<Rightarrow> fl \<Rightarrow> fl" where
  "charge_spec df scheme pH =
     np_sum (map (group_charge df scheme pH) (active_groups df scheme))"

text \<open>
  The data set that a successful construction leaves, for the stored array \<open>arr\<close> of
  the abundances.
\<close>

definition built_dataset :: "dataframe \<Rightarrow> ndarray \<Rightarrow> fl list \<Rightarrow> dataframe" where
  "built_dataset T arr m =
     setitem_series
       (setitem_series
          (T\<lparr>columns := AList.update ''abundance_input'' (float_values arr) (columns T)\<rparr>)
          ''abundance_norm'' (abundance_norm_of arr))
       ''mass_percent'' (mass_percent_of (float_values arr) m)"

definition titration :: "fl \<Rightarrow> fl \<times> fl \<times> fl \<Rightarrow> fl" where
  "titration pH = (\<lambda>(c, a, k). fdiv (fmul c a) (fadd (Fin 1) (fpow10 (fmul c (fsub pH k)))))"

section \<open>A small table and the instances built from it\<close>

text \<open>
  A table of five groups with two pKa schemes that do not cover the same groups:
  \<open>pka_alt\<close> has no value for \<open>K\<close>. The caller's abundance list \<open>[1, 3]\<close> is the list
  object at reference 0; the lists \<open>[2]\<close>, \<open>[0, 1]\<close>, \<open>[2**62, 2**62]\<close> and
  \<open>[inf, 1.0]\<close> are those at references 1 to 4.
\<close>

definition small_table :: dataframe where
  "small_table =
     \<lparr>index = [''D'', ''K'', ''G'', ''N_term'', ''C_term''],
      columns =
        [(''molar_mass'', [Fin 133, Fin 146, Fin 75, Fin 1, Fin 17]),
         (''molar_mass_residue'', [Fin 115, Fin 128, Fin 57, NaN, NaN]),
         (''charge_indicator'', [Fin (- 1), Fin 1, NaN, Fin 1, Fin (- 1)]),
         (''pka_bjellqvist'', [Fin 4, Fin 10, NaN, Fin 8, Fin 3]),
         (''pka_alt'', [Fin 4, NaN, NaN, Fin 9, Fin 3])]\<rparr>"

definition abundance_kw :: kwargs where
  "abundance_kw = \<lparr>kw_abundance = Some 0, kw_sequence = None, kw_pka_data = None\<rparr>"

definition alt_kw :: kwargs where
  "alt_kw = \<lparr>kw_abundance = Some 0, kw_sequence = None, kw_pka_data = Some ''pka_alt''\<rparr>"

definition caller_heap :: heap where
  "caller_heap =
     (\<lambda>r. if r = 0 then [PyInt 1, PyInt 3] else if r = 1 then [PyInt 2]
          else if r = 2 then [PyInt 0, PyInt 1]
          else if r = 3 then [PyInt 4611686018427387904, PyInt 4611686018427387904]
          else if r = 4 then [PyFloat PInf, PyFloat (Fin 1)] else [])"

definition small_dataset :: dataframe where
  "small_dataset =
     \<lparr>index = [''D'', ''K'', ''G'', ''N_term'', ''C_term''],
      columns =
        [(''molar_mass'', [Fin 133, Fin 146, Fin 75, Fin 1, Fin 17]),
         (''molar_mass_residue'', [Fin 115, Fin 128, Fin 57, NaN, NaN]),
         (''charge_indicator'', [Fin (- 1), Fin 1, NaN, Fin 1, Fin (- 1)]),
         (''pka_bjellqvist'', [Fin 4, Fin 10, NaN, Fin 8, Fin 3]),
         (''pka_alt'', [Fin 4, NaN, NaN, Fin 9, Fin 3]),
         (''abundance_input'', [Fin 1, Fin 3, Fin 0, Fin 0, Fin 0]),
         (''abundance_norm'', [Fin (1 / 4), Fin (3 / 4), Fin 0, Fin 0, Fin 0]),
         (''mass_percent'', [Fin (133 / 571), Fin (438 / 571), Fin 0, Fin 0, Fin 0])]\<rparr>"

definition small_inst :: polyampholyte where
  "small_inst =
     \<lparr>mode = ''protein'', kwargs = abundance_kw, dataset = small_dataset,
      amino_acid_sequence = None, number_of_residues = None,
      pka_data = ''pka_bjellqvist'',
      IEP_dataset = iloc small_dataset [True, True, False, True, True]\<rparr>"

definition alt_inst :: polyampholyte where
  "alt_inst =
     \<lparr>mode = ''protein'', kwargs = alt_kw, dataset = small_dataset,
      amino_acid_sequence = None, number_of_residues = None,
      pka_data = ''pka_alt'',
      IEP_dataset = iloc small_dataset [True, False, False, True, True]\<rparr>"

definition both_kw :: kwargs where
  "both_kw = \<lparr>kw_abundance = Some 0, kw_sequence = Some ''DK'', kw_pka_data = None\<rparr>"

definition acid_kw :: kwargs where
  "acid_kw = \<lparr>kw_abundance = Some 1, kw_sequence = None, kw_pka_data = None\<rparr>"

definition acid_inst :: polyampholyte where
  "acid_inst =
     \<lparr>mode = ''protein'', kwargs = acid_kw,
      dataset =
        \<lparr>index = [''D'', ''K'', ''G'', ''N_term'', ''C_term''],
         columns =
           [(''molar_mass'', [Fin 133, Fin 146, Fin 75, Fin 1, Fin 17]),
            (''molar_mass_residue'', [Fin 115, Fin 128, Fin 57, NaN, NaN]),
            (''charge_indicator'', [Fin (- 1), Fin 1, NaN, Fin 1, Fin (- 1)]),
            (''pka_bjellqvist'', [Fin 4, Fin 10, NaN, Fin 8, Fin 3]),
            (''pka_alt'', [Fin 4, NaN, NaN, Fin 9, Fin 3]),
            (''abundance_input'', [Fin 2, Fin 0, Fin 0, Fin 0, Fin 0]),
            (''abundance_norm'', [Fin 1, Fin 0, Fin 0, Fin 0, Fin 0]),
            (''mass_percent'', [Fin 1, Fin 0, Fin 0, Fin 0, Fin 0])]\<rparr>,
      amino_acid_sequence = None, number_of_residues = None,
      pka_data = ''pka_bjellqvist'',
      IEP_dataset =
        \<lparr>index = [''D'', ''K'', ''N_term'', ''C_term''],
         columns =
           [(''molar_mass'', [Fin 133, Fin 146, Fin 1, Fin 17]),
            (''molar_mass_residue'', [Fin 115, Fin 128, NaN, NaN]),
            (''charge_indicator'', [Fin (- 1), Fin 1, Fin 1, Fin (- 1)]),
            (''pka_bjellqvist'', [Fin 4, Fin 10, Fin 8, Fin 3]),
            (''pka_alt'', [Fin 4, NaN, Fin 9, Fin 3]),
            (''abundance_input'', [Fin 2, Fin 0, Fin 0, Fin 0]),
            (''abundance_norm'', [Fin 1, Fin 0, Fin 0, Fin 0]),
            (''mass_percent'', [Fin 1, Fin 0, Fin 0, Fin 0])]\<rparr>\<rparr>"

text \<open>
  A table whose only ionizable groups are acidic, and the instance built from the
  abundances \<open>[0, 1]\<close>: glycine alone, so that no ionizable group is present.
\<close>

definition acid_table :: dataframe where
  "acid_table =
     \<lparr>index = [''D'', ''G'', ''N_term'', ''C_term''],
      columns =
        [(''molar_mass'', [Fin 133, Fin 75, Fin 1, Fin 17]),
         (''charge_indicator'', [Fin (- 1), NaN, NaN, Fin (- 1)]),
         (''pka_bjellqvist'', [Fin 4, NaN, NaN, Fin 3])]\<rparr>"

definition glycine_kw :: kwargs where
  "glycine_kw = \<lparr>kw_abundance = Some 2, kw_sequence = None, kw_pka_data = None\<rparr>"

definition glycine_inst :: polyampholyte where
  "glycine_inst =
     \<lparr>mode = ''protein'', kwargs = glycine_kw,
      dataset =
        \<lparr>index = [''D'', ''G'', ''N_term'', ''C_term''],
         columns =
           [(''molar_mass'', [Fin 133, Fin 75, Fin 1, Fin 17]),
            (''charge_indicator'', [Fin (- 1), NaN, NaN, Fin (- 1)]),
            (''pka_bjellqvist'', [Fin 4, NaN, NaN, Fin 3]),
            (''abundance_input'', [Fin 0, Fin 1, Fin 0, Fin 0]),
            (''abundance_norm'', [Fin 0, Fin 1, Fin 0, Fin 0]),
            (''mass_percent'', [Fin 0, Fin 1, Fin 0, Fin 0])]\<rparr>,
      amino_acid_sequence = None, number_of_residues = None,
      pka_data = ''pka_bjellqvist'',
      IEP_dataset =
        \<lparr>index = [''D'', ''C_term''],
         columns =
           [(''molar_mass'', [Fin 133, Fin 17]),
            (''charge_indicator'', [Fin (- 1), Fin (- 1)]),
            (''pka_bjellqvist'', [Fin 4, Fin 3]),
            (''abundance_input'', [Fin 0, Fin 0]),
            (''abundance_norm'', [Fin 0, Fin 0]),
            (''mass_percent'', [Fin 0, Fin 0])]\<rparr>\<rparr>"

section \<open>A table of 24 groups and a sequence\<close>

text \<open>
  An example table with the 24 row labels that the constructor expects for a sequence.
  Its values are illustrative (rounded molar masses and pKa values), and its two terminus
  rows have no residue molar mass.
\<close>

definition protein_table :: dataframe where
  "protein_table =
     \<lparr>index = [''D'', ''N'', ''T'', ''S'', ''E'', ''Q'', ''G'', ''A'', ''C'', ''V'', ''M'', ''I'',
               ''L'', ''Y'', ''F'', ''H'', ''K'', ''R'', ''P'', ''W'', ''Hyp'', ''Hyl'',
               ''N_term'', ''C_term''],
      columns =
        [(''molar_mass'',
          [Fin 133, Fin 132, Fin 119, Fin 105, Fin 147, Fin 146, Fin 75, Fin 89, Fin 121,
           Fin 117, Fin 149, Fin 131, Fin 131, Fin 181, Fin 165, Fin 155, Fin 146, Fin 174,
           Fin 115, Fin 204, Fin 131, Fin 162, Fin 1, Fin 17]),
         (''molar_mass_residue'',
          [Fin 115, Fin 114, Fin 101, Fin 87, Fin 129, Fin 128, Fin 57, Fin 71, Fin 103,
           Fin 99, Fin 131, Fin 113, Fin 113, Fin 163, Fin 147, Fin 137, Fin 128, Fin 156,
           Fin 97, Fin 186, Fin 113, Fin 144, NaN, NaN]),
         (''charge_indicator'',
          [Fin (- 1), NaN, NaN, NaN, Fin (- 1), NaN, NaN, NaN, Fin (- 1), NaN, NaN, NaN,
           NaN, Fin (- 1), NaN, Fin 1, Fin 1, Fin 1, NaN, NaN, NaN, NaN, Fin 1, Fin (- 1)]),
         (''pka_bjellqvist'',
          [Fin 4, NaN, NaN, NaN, Fin 4, NaN, NaN, NaN, Fin 9, NaN, NaN, NaN,
           NaN, Fin 10, NaN, Fin 6, Fin 10, Fin 12, NaN, NaN, NaN, NaN, Fin 8, Fin 4])]\<rparr>"

definition sequence_kw :: kwargs where
  "sequence_kw = \<lparr>kw_abundance = None, kw_sequence = Some ''DTHK'', kw_pka_data = None\<rparr>"

definition constructed :: "dataframe \<Rightarrow> string \<Rightarrow> kwargs \<Rightarrow> heap \<Rightarrow> polyampholyte option" where
  "constructed T md kw h =
     (case fst (initialize_dataset T md kw h) of Inl _ \<Rightarrow> None | Inr inst \<Rightarrow> Some inst)"

section \<open>The specification's sampling and mass formulas, and the solver's contract\<close>

text \<open>The \<open>N\<close> equally spaced values from \<open>lo\<close> to \<open>hi\<close>.\<close>

definition equally_spaced :: "real \<Rightarrow> real \<Rightarrow> int \<Rightarrow> real list" where
  "equally_spaced lo hi N =
     map (\<lambda>i. lo + real i * (hi - lo) / (real_of_int N - 1)) [0..<nat N]"

text \<open>
  The sign test of \<open>brentq\<close>: when the function values at the two ends of the bracket
  are both strictly positive or both strictly negative, it raises ValueError. Nothing
  else is assumed of the solver.
\<close>

definition fl_pos :: "fl \<Rightarrow> bool" where
  "fl_pos x = (case x of Fin r \<Rightarrow> 0 < r | PInf \<Rightarrow> True | _ \<Rightarrow> False)"

definition fl_neg :: "fl \<Rightarrow> bool" where
  "fl_neg x = (case x of Fin r \<Rightarrow> r < 0 | NInf \<Rightarrow> True | _ \<Rightarrow> False)"

definition same_sign :: "fl \<Rightarrow> fl \<Rightarrow> bool" where
  "same_sign x y = ((fl_pos x \<and> fl_pos y) \<or> (fl_neg x \<and> fl_neg y))"

definition bracket_contract :: "solver \<Rightarrow> bool" where
  "bracket_contract brentq =
     (\<forall>f a b x y. f a = Inr x \<and> f b = Inr y \<and> same_sign x y \<longrightarrow> brentq f a b = Inl ValueError)"

text \<open>
  A solver that meets the contract. As \<open>brentq\<close> does, it evaluates the function at
  both ends, returns an end at which the function is zero, and otherwise tests the signs;
  the search itself is a bisection of a fixed number of steps.
\<close>

primrec bisect :: "nat \<Rightarrow> (fl \<Rightarrow> py_error + fl) \<Rightarrow> fl \<Rightarrow> fl \<Rightarrow> fl \<Rightarrow> py_error + fl" where
  "bisect 0 f a b fa = Inr (fdiv (fadd a b) (Fin 2))"
| "bisect (Suc n) f a b fa =
     (let m = fdiv (fadd a b) (Fin 2)
      in case f m of
           Inl e \<Rightarrow> Inl e
         | Inr fm \<Rightarrow>
             if fm = Fin 0 then Inr m
             else if same_sign fm fa then bisect n f m b fm
             else bisect n f a m fa)"

definition bisect_solver :: solver where
  "bisect_solver f a b =
     (case f a of
        Inl e \<Rightarrow> Inl e
      | Inr fa \<Rightarrow>
          (case f b of
             Inl e \<Rightarrow> Inl e
           | Inr fb \<Rightarrow>
               if fa = Fin 0 then Inr a
               else if fb = Fin 0 then Inr b
               else if same_sign fa fb then Inl ValueError
               else bisect 60 f a b fa))"

text \<open>
  An instance whose present groups are all acidic: every row of \<open>IEP_dataset\<close> has
  finite entries and either abundance 0, or charge indicator \<open>-1\<close> and a positive
  abundance, and at least one row has a positive abundance.
\<close>

definition acidic_row :: "fl \<times> fl \<times> fl \<Rightarrow> bool" where
  "acidic_row = (\<lambda>(c, a, k).
     (case c of Fin c' \<Rightarrow>
        (case a of Fin a' \<Rightarrow>
           (case k of Fin k' \<Rightarrow> a' = 0 \<or> (c' = - 1 \<and> 0 < a') | _ \<Rightarrow> False)
         | _ \<Rightarrow> False)
      | _ \<Rightarrow> False))"

definition present_row :: "fl \<times> fl \<times> fl \<Rightarrow> bool" where
  "present_row = (\<lambda>(c, a, k). fl_pos a)"

definition only_acidic_groups :: "polyampholyte \<Rightarrow> bool" where
  "only_acidic_groups inst =
     (case getitem (IEP_dataset inst) ''charge_indicator'' of
        Inl _ \<Rightarrow> False
      | Inr ci \<Rightarrow>
          (case getitem (IEP_dataset inst) ''abundance_norm'' of
             Inl _ \<Rightarrow> False
           | Inr an \<Rightarrow>
               (case getitem (IEP_dataset inst) (pka_data inst) of
                  Inl _ \<Rightarrow> False
                | Inr pk \<Rightarrow>
                    list_all acidic_row (zip ci (zip an pk))
                    \<and> list_ex present_row (zip ci (zip an pk)))))"

text \<open>
  The mean residue molar mass as the specification states it: the sum over the rows
  before the two terminus rows whose \<open>molar_mass_residue\<close> is defined, plus, for an
  instance built from a sequence, the termini's \<open>molar_mass\<close> weighted by their
  \<open>abundance_norm\<close>.
\<close>

definition mean_residue_mw_spec :: "polyampholyte \<Rightarrow> fl" where
  "mean_residue_mw_spec inst =
     (let n = length (index (dataset inst));
          mr = column (dataset inst) ''molar_mass_residue'';
          mm = column (dataset inst) ''molar_mass'';
          an = column (dataset inst) ''abundance_norm'';
          residues = filter (\<lambda>g. \<not> isna (mr ! g)) [0..<n - 2];
          residue_mean = np_sum (map (\<lambda>g. fmul (mr ! g) (an ! g)) residues)
      in if amino_acid_sequence inst \<noteq> None
         then fadd residue_mean (np_sum (map (\<lambda>g. fmul (mm ! g) (an ! g)) [n - 2..<n]))
         else residue_mean)"

text \<open>
  The molar mass as the sum over all groups of \<open>abundance_input * molar_mass_residue\<close>,
  and the same sum over the groups whose product is not NaN.
\<close>

definition molar_mass_spec :: "dataframe \<Rightarrow> fl" where
  "molar_mass_spec df =
     np_sum (map (\<lambda>g. fmul (column df ''abundance_input'' ! g)
                          (column df ''molar_mass_residue'' ! g))
               [0..<length (index df)])"

definition molar_mass_defined :: "dataframe \<Rightarrow> fl" where
  "molar_mass_defined df =
     np_sum (map (\<lambda>g. fmul (column df ''abundance_input'' ! g)
                          (column df ''molar_mass_residue'' ! g))
               (filter (\<lambda>g. \<not> isna (fmul (column df ''abundance_input'' ! g)
                                           (column df ''molar_mass_residue'' ! g)))
                  [0..<length (index df)]))"

section \<open>The normalization as the specification states it\<close>







section \<open>Lemmas on data frames and on the construction\<close>

lemmas eval_defs = initialize_dataset_def read_input_def assign_abundance_def
  add_normalized_columns_def to_array_def float_of_int64_def
  setitem_list_def setitem_series_def getitem_def pad_abundance_def select_pka_data_def
  abundance_norm_of_def mass_percent_of_def but_last2_def last2_def series_sum_def isna_def
  vmul_def vdiv_def iloc_def select_def data_mask_def Let_def

lemmas small_defs = small_table_def abundance_kw_def alt_kw_def caller_heap_def
  small_dataset_def small_inst_def alt_inst_def

lemma small_inst_constructed:
  "initialize_dataset small_table ''protein'' abundance_kw caller_heap =
     (Inr small_inst, caller_heap(0 := [PyInt 1, PyInt 3, PyInt 0, PyInt 0, PyInt 0]))"
  by (simp add: eval_defs small_defs)

lemma alt_inst_constructed:
  "initialize_dataset small_table ''protein'' alt_kw caller_heap =
     (Inr alt_inst, caller_heap(0 := [PyInt 1, PyInt 3, PyInt 0, PyInt 0, PyInt 0]))"
  by (simp add: eval_defs small_defs)

lemma wf_small_table: "wf_dataframe small_table"
  by (simp add: wf_dataframe_def small_table_def)

lemma map_of_map_snd:
  "map_of (map (\<lambda>(c, v). (c, f v)) xs) c = map_option f (map_of xs c)"
  by (induction xs) auto

lemma getitem_iloc:
  "getitem (iloc df m) c = (case getitem df c of Inl e \<Rightarrow> Inl e | Inr v \<Rightarrow> Inr (select m v))"
  by (simp add: getitem_def iloc_def map_of_map_snd split: option.splits)

lemma select_Cons [simp]:
  "select (b # m) (x # xs) = (if b then x # select m xs else select m xs)"
  by (simp add: select_def)

lemma select_Nil [simp]: "select [] xs = []" "select m [] = []"
  by (simp_all add: select_def)

lemma select_map: "select m (map f xs) = map f (select m xs)"
  by (induction m arbitrary: xs) (case_tac xs; simp)+

lemma select_zip: "select m (zip xs ys) = zip (select m xs) (select m ys)"
proof (induction m arbitrary: xs ys)
  case Nil
  then show ?case by simp
next
  case (Cons b m)
  then show ?case by (cases xs; cases ys) auto
qed

lemma select_nth:
  "length m = length xs \<Longrightarrow> select m xs = map ((!) xs) (filter ((!) m) [0..<length xs])"
proof (induction m xs rule: list_induct2)
  case Nil
  then show ?case by simp
next
  case (Cons b m x xs)
  have "filter ((!) (b # m)) [0..<length (x # xs)] =
        (if b then [0] else []) @ map Suc (filter ((!) m) [0..<length xs])"
    by (simp add: upt_conv_Cons del: upt_Suc) (simp add: map_Suc_upt [symmetric] filter_map comp_def del: upt_Suc)
  then show ?case using Cons by (simp add: comp_def)
qed

lemma getitem_update:
  "getitem (df\<lparr>columns := AList.update c v (columns df)\<rparr>) c' =
     (if c' = c then Inr v else getitem df c')"
  by (simp add: getitem_def update_conv')

lemma getitem_setitem_series:
  "getitem (setitem_series df c v) c' = (if c' = c then Inr v else getitem df c')"
  by (simp add: setitem_series_def getitem_update)

lemma float_values_to_array: "float_values (to_array xs) = map float_of xs"
proof (cases "list_all is_int xs")
  case True
  then have "map float_of_int64 (map int_of xs) = map float_of xs"
    by (induction xs) (auto elim: is_int.elims)
  with True show ?thesis by (simp add: to_array_def)
next
  case False
  then show ?thesis by (simp add: to_array_def)
qed

lemma length_float_values_to_array [simp]: "length (float_values (to_array xs)) = length xs"
  by (simp add: float_values_to_array)

lemma anc_built:
  assumes "getitem ds ''abundance_input'' = Inr a"
  shows "add_normalized_columns ds arr =
     (case getitem ds ''molar_mass'' of
        Inl e \<Rightarrow> Inl e
      | Inr m \<Rightarrow> Inr (setitem_series (setitem_series ds ''abundance_norm'' (abundance_norm_of arr))
                        ''mass_percent'' (mass_percent_of a m)))"
  using assms by (simp add: add_normalized_columns_def Let_def getitem_setitem_series split: sum.splits)

lemma read_input_Inr:
  assumes "read_input T kw h = (Inr (ds0, arr, sq, nres), h')"
  shows "\<exists>xs. length xs = length (index T) \<and> arr = to_array xs
           \<and> ds0 = T\<lparr>columns := AList.update ''abundance_input'' (float_values arr) (columns T)\<rparr>
           \<and> ((\<exists>r. kw_abundance kw = Some r \<and> xs = pad_abundance (length (index T)) (h r)
                    \<and> h' = h(r := xs) \<and> sq = None \<and> nres = None)
              \<or> (\<exists>s. kw_abundance kw = None \<and> kw_sequence kw = Some s
                    \<and> xs = count_residues (index T) s \<and> h' = h
                    \<and> sq = Some s \<and> nres = Some (length s)))"
  using assms
  by (auto simp: read_input_def assign_abundance_def Let_def setitem_list_def
      split: option.splits sum.splits if_splits)

lemma initialize_dataset_Inr:
  assumes "initialize_dataset T md kw h = (Inr inst, h')"
  shows "\<exists>xs m pk. md = ''protein'' \<and> length xs = length (index T)
           \<and> getitem T ''molar_mass'' = Inr m
           \<and> dataset inst = built_dataset T (to_array xs) m
           \<and> pka_data inst = select_pka_data kw
           \<and> getitem (dataset inst) (pka_data inst) = Inr pk
           \<and> IEP_dataset inst = iloc (dataset inst) (data_mask pk)
           \<and> mode inst = md \<and> kwargs inst = kw
           \<and> ((\<exists>r. kw_abundance kw = Some r \<and> xs = pad_abundance (length (index T)) (h r)
                    \<and> h' = h(r := xs) \<and> amino_acid_sequence inst = None
                    \<and> number_of_residues inst = None)
              \<or> (\<exists>s. kw_abundance kw = None \<and> kw_sequence kw = Some s
                    \<and> xs = count_residues (index T) s \<and> h' = h
                    \<and> amino_acid_sequence inst = Some s
                    \<and> number_of_residues inst = Some (length s)))"
proof -
  from assms have md: "md = ''protein''"
    by (auto simp: initialize_dataset_def split: if_splits)
  from assms md obtain ds0 arr sq nres where
    ri: "read_input T kw h = (Inr (ds0, arr, sq, nres), h')"
    by (auto simp: initialize_dataset_def split: prod.splits sum.splits)
  from read_input_Inr [OF ri] obtain xs where
    a: "length xs = length (index T)" "arr = to_array xs"
       "ds0 = T\<lparr>columns := AList.update ''abundance_input'' (float_values arr) (columns T)\<rparr>"
    and src: "(\<exists>r. kw_abundance kw = Some r \<and> xs = pad_abundance (length (index T)) (h r)
                    \<and> h' = h(r := xs) \<and> sq = None \<and> nres = None)
              \<or> (\<exists>s. kw_abundance kw = None \<and> kw_sequence kw = Some s
                    \<and> xs = count_residues (index T) s \<and> h' = h
                    \<and> sq = Some s \<and> nres = Some (length s))"
    by blast
  have ga: "getitem ds0 ''abundance_input'' = Inr (float_values arr)"
    by (simp add: a(3) getitem_update)
  have gm: "getitem ds0 ''molar_mass'' = getitem T ''molar_mass''"
    by (simp add: a(3) getitem_update)
  from assms md ri obtain ds where nz: "add_normalized_columns ds0 arr = Inr ds"
    by (auto simp: initialize_dataset_def split: sum.splits)
  have "add_normalized_columns ds0 arr =
     (case getitem T ''molar_mass'' of
        Inl e \<Rightarrow> Inl e
      | Inr m \<Rightarrow> Inr (setitem_series (setitem_series ds0 ''abundance_norm'' (abundance_norm_of arr))
                        ''mass_percent'' (mass_percent_of (float_values arr) m)))"
    using anc_built [OF ga] gm by simp
  with nz obtain m where m: "getitem T ''molar_mass'' = Inr m" and
    ds: "ds = built_dataset T arr m"
    by (auto simp: built_dataset_def a(3) split: sum.splits)
  from assms md ri nz obtain pk where pk: "getitem ds (select_pka_data kw) = Inr pk"
    and inst: "inst = \<lparr>mode = md, kwargs = kw, dataset = ds,
                             amino_acid_sequence = sq, number_of_residues = nres,
                             pka_data = select_pka_data kw,
                             IEP_dataset = iloc ds (data_mask pk)\<rparr>"
    by (auto simp: initialize_dataset_def split: sum.splits)
  show ?thesis
    using md a(1,2) m ds pk inst src by auto
qed

lemma wf_getitem_length:
  "wf_dataframe df \<Longrightarrow> getitem df c = Inr v \<Longrightarrow> length v = length (index df)"
  by (auto simp: wf_dataframe_def getitem_def list_all_iff split: option.splits dest!: map_of_SomeD)

lemma getitem_built:
  "getitem (built_dataset T arr m) c =
     (if c = ''mass_percent'' then Inr (mass_percent_of (float_values arr) m)
      else if c = ''abundance_norm'' then Inr (abundance_norm_of arr)
      else if c = ''abundance_input'' then Inr (float_values arr)
      else getitem T c)"
  by (simp add: built_dataset_def getitem_setitem_series getitem_update)

lemma index_built [simp]: "index (built_dataset T a m) = index T"
  by (simp add: built_dataset_def setitem_series_def)

lemma length_abundance_norm_of [simp]:
  "length (abundance_norm_of arr) = length (float_values arr)"
  by (simp add: abundance_norm_of_def)

lemma length_mass_percent_of [simp]:
  "length (mass_percent_of a m) = min (length a) (length m)"
  by (simp add: mass_percent_of_def vmul_def)

lemma built_getitem_length:
  assumes "wf_dataframe T" "length (float_values arr) = length (index T)"
    and "getitem T ''molar_mass'' = Inr m"
    and "getitem (built_dataset T arr m) c = Inr v"
  shows "length v = length (index T)"
proof -
  have lm: "length m = length (index T)"
    using wf_getitem_length assms(1,3) by blast
  show ?thesis
    using assms(4) assms(2) lm wf_getitem_length [OF assms(1)]
    by (auto simp: getitem_built split: if_splits)
qed

lemma charge_terms_rows:
  "charge_terms ci an pk pH = map (titration pH) (zip ci (zip an pk))"
proof (induction ci arbitrary: an pk)
  case Nil
  then show ?case by (simp add: charge_terms_def vmul_def vdiv_def)
next
  case (Cons c ci)
  show ?case
  proof (cases an)
    case Nil
    then show ?thesis by (simp add: charge_terms_def vmul_def vdiv_def)
  next
    case (Cons a an')
    note an = this
    show ?thesis
    proof (cases pk)
      case Nil
      then show ?thesis by (simp add: charge_terms_def vmul_def vdiv_def)
    next
      case (Cons k pk')
      with an Cons.IH [of an' pk'] show ?thesis
        by (simp add: charge_terms_def vmul_def vdiv_def titration_def)
    qed
  qed
qed

lemma calc_charge_rows:
  assumes "getitem ds ''charge_indicator'' = Inr ci"
    and "getitem ds ''abundance_norm'' = Inr an"
    and "getitem ds scheme = Inr pk"
    and "length msk = length pk" "length ci = length pk" "length an = length pk"
    and "IEP_dataset inst = iloc ds msk" "pka_data inst = scheme"
  shows "calc_charge inst pH =
     Inr (np_sum (map (\<lambda>g. titration pH (ci ! g, an ! g, pk ! g))
                   (filter ((!) msk) [0..<length pk])))"
proof -
  let ?rows = "zip ci (zip an pk)"
  have len: "length msk = length ?rows" using assms(4-6) by simp
  have "calc_charge inst pH =
          Inr (np_sum (charge_terms (select msk ci) (select msk an) (select msk pk) pH))"
    using assms(1-3,7,8) by (simp add: calc_charge_def getitem_iloc)
  also have "charge_terms (select msk ci) (select msk an) (select msk pk) pH =
          map (titration pH) (select msk ?rows)"
    by (simp add: charge_terms_rows select_zip)
  also have "select msk ?rows = map ((!) ?rows) (filter ((!) msk) [0..<length ?rows])"
    by (rule select_nth [OF len])
  also have "map (titration pH) \<dots> =
          map (\<lambda>g. titration pH (ci ! g, an ! g, pk ! g)) (filter ((!) msk) [0..<length pk])"
    using assms(4-6) by (auto simp: comp_def)
  finally show ?thesis .
qed

section \<open>The charge of a constructed instance\<close>

text \<open>
  For an instance as the constructor returns it, built from a well-formed table that has
  a \<open>charge_indicator\<close> column, \<open>calc_charge\<close> returns the specification's sum over the
  rows whose pKa under the selected scheme is not NaN. This still holds after \<open>pka_data\<close>
  is reassigned to a scheme that is defined on the same rows as the one chosen at
  construction.
\<close>

lemma calc_charge_formula_same_coverage:
  assumes "initialize_dataset T md kw h = (Inr inst, h')"
    and "wf_dataframe T"
    and "getitem T ''charge_indicator'' = Inr ci"
    and "getitem (dataset inst) (pka_data inst) = Inr pk0"
    and "getitem (dataset inst) s = Inr pk"
    and "data_mask pk = data_mask pk0"
  shows "calc_charge (set_pka_data inst s) pH
           = Inr (charge_spec (dataset (set_pka_data inst s)) (pka_data (set_pka_data inst s)) pH)"
proof -
  from initialize_dataset_Inr [OF assms(1)] assms(4) obtain xs m where
    a: "length xs = length (index T)" and m: "getitem T ''molar_mass'' = Inr m"
    and ds: "dataset inst = built_dataset T (to_array xs) m"
    and iep0: "IEP_dataset inst = iloc (dataset inst) (data_mask pk0)"
    by auto
  let ?inst = "set_pka_data inst s"
  let ?ds = "dataset inst"
  let ?n = "length (index T)"
  let ?an = "abundance_norm_of (to_array xs)"
  have sw: "dataset ?inst = ?ds" "pka_data ?inst = s" "IEP_dataset ?inst = IEP_dataset inst"
    by (simp_all add: set_pka_data_def)
  have iep: "IEP_dataset ?inst = iloc ?ds (data_mask pk)"
    by (simp add: sw iep0 assms(6))
  have la: "length (float_values (to_array xs)) = ?n" by (simp add: a)
  have gci: "getitem ?ds ''charge_indicator'' = Inr ci"
    using assms(3) by (simp add: ds getitem_built)
  have gan: "getitem ?ds ''abundance_norm'' = Inr ?an"
    by (simp add: ds getitem_built)
  have lpk: "length pk = ?n"
    using built_getitem_length [OF assms(2) la m] assms(5) ds by simp
  have lci: "length ci = ?n"
    using wf_getitem_length [OF assms(2,3)] .
  have cc: "calc_charge ?inst pH =
     Inr (np_sum (map (\<lambda>g. titration pH (ci ! g, ?an ! g, pk ! g))
                   (filter ((!) (data_mask pk)) [0..<length pk])))"
    by (rule calc_charge_rows [OF gci gan assms(5) _ _ _ iep sw(2)])
       (simp_all add: data_mask_def lpk lci a)
  have col: "column ?ds ''charge_indicator'' = ci"
    "column ?ds ''abundance_norm'' = ?an"
    "column ?ds s = pk"
    using gci gan assms(5) by (auto simp: column_def getitem_def split: option.splits)
  have ag: "active_groups ?ds s = filter ((!) (data_mask pk)) [0..<length pk]"
    unfolding active_groups_def col(3)
    by (rule filter_cong) (simp_all add: ds data_mask_def lpk)
  have gc: "group_charge ?ds s pH = (\<lambda>g. titration pH (ci ! g, ?an ! g, pk ! g))"
    by (rule ext) (simp add: group_charge_def col titration_def Let_def)
  show ?thesis
    by (simp add: cc sw charge_spec_def ag gc)
qed

lemma calc_charge_formula:
  assumes "initialize_dataset T md kw h = (Inr inst, h')"
    and "wf_dataframe T"
    and "getitem T ''charge_indicator'' = Inr ci"
  shows "calc_charge inst pH = Inr (charge_spec (dataset inst) (pka_data inst) pH)"
proof -
  from initialize_dataset_Inr [OF assms(1)] obtain pk where
    pk: "getitem (dataset inst) (pka_data inst) = Inr pk"
    by blast
  have "set_pka_data inst (pka_data inst) = inst"
    by (simp add: set_pka_data_def)
  with calc_charge_formula_same_coverage [OF assms pk pk refl, of pH] show ?thesis
    by simp
qed

text \<open>
  The instance built from the abundances \<open>[1, 3]\<close> under the default scheme: its charge
  at pH 4 is the specification's sum, \<open>4999999 / 8000008\<close>.
\<close>

lemma calc_charge_formula_example:
  "calc_charge small_inst (Fin 4)
       = Inr (charge_spec (dataset small_inst) (pka_data small_inst) (Fin 4))
   \<and> calc_charge small_inst (Fin 4) = Inr (Fin (4999999 / 8000008))"
proof -
  have ci: "getitem small_table ''charge_indicator'' = Inr [Fin (- 1), Fin 1, NaN, Fin 1, Fin (- 1)]"
    by (simp add: getitem_def small_table_def)
  have v: "calc_charge small_inst (Fin 4) = Inr (Fin (4999999 / 8000008))"
    by (simp add: eval_defs small_defs calc_charge_def charge_terms_def fsub_def powr_minus)
  show ?thesis
    using calc_charge_formula [OF small_inst_constructed wf_small_table ci, of "Fin 4"] v
    by simp
qed

text \<open>
  Claim C1 has \<open>calc_charge\<close> return, for every instance, the sum over exactly the rows
  whose pKa under the selected scheme is defined. The theorem evaluates the code on an
  instance whose \<open>pka_data\<close> was reassigned to a scheme that covers other rows: the rows
  summed over stay those of the scheme chosen at construction. After switching
  \<open>small_inst\<close> to \<open>pka_alt\<close> the row \<open>K\<close>, which has no pKa under \<open>pka_alt\<close>, is still
  summed over and the charge is NaN, where the claim's sum is \<open>- 1 / 8\<close>.
\<close>

theorem calc_charge_after_switch:
  "calc_charge (set_pka_data small_inst ''pka_alt'') (Fin 4) = Inr NaN
   \<and> charge_spec (dataset (set_pka_data small_inst ''pka_alt''))
        (pka_data (set_pka_data small_inst ''pka_alt'')) (Fin 4) = Fin (- 1 / 8)"
  by (simp add: eval_defs small_defs calc_charge_def charge_terms_def fsub_def powr_minus
      set_pka_data_def charge_spec_def active_groups_def group_charge_def column_def)

section \<open>Switching the pKa scheme\<close>

text \<open>
  Claim C2 has the rows used after a reassignment of \<open>pka_data\<close> be those whose pKa
  is defined under the new scheme. The theorem evaluates the code where the two schemes
  cover different rows: the instance is built under \<open>pka_alt\<close>, which has no pKa for
  \<open>K\<close>, and then switched to \<open>pka_bjellqvist\<close>, which has one. \<open>IEP_dataset\<close> still
  holds the rows of \<open>pka_alt\<close>, so \<open>K\<close> is left out of the charge at pH 10, where the
  sum over the rows defined under \<open>pka_bjellqvist\<close> includes its \<open>3 / 8\<close>.
\<close>

theorem switch_keeps_construction_rows:
  "initialize_dataset small_table ''protein'' alt_kw caller_heap =
     (Inr alt_inst, caller_heap(0 := [PyInt 1, PyInt 3, PyInt 0, PyInt 0, PyInt 0]))
   \<and> index (IEP_dataset (set_pka_data alt_inst ''pka_bjellqvist''))
       = [''D'', ''N_term'', ''C_term'']
   \<and> map ((!) (index (dataset (set_pka_data alt_inst ''pka_bjellqvist''))))
        (active_groups (dataset (set_pka_data alt_inst ''pka_bjellqvist'')) ''pka_bjellqvist'')
       = [''D'', ''K'', ''N_term'', ''C_term'']
   \<and> calc_charge (set_pka_data alt_inst ''pka_bjellqvist'') (Fin 10)
       = Inr (Fin (- 250000 / 1000001))
   \<and> charge_spec (dataset (set_pka_data alt_inst ''pka_bjellqvist'')) ''pka_bjellqvist'' (Fin 10)
       = Fin (3 / 8 - 250000 / 1000001)"
  by (simp add: alt_inst_constructed)
     (simp add: eval_defs small_defs calc_charge_def charge_terms_def fsub_def powr_minus
      set_pka_data_def charge_spec_def active_groups_def group_charge_def column_def)

section \<open>The caller's abundance list\<close>

lemma read_input_heap:
  "snd (read_input T kw h) =
     (case kw_abundance kw of None \<Rightarrow> h
      | Some r \<Rightarrow> h(r := pad_abundance (length (index T)) (h r)))"
  by (simp add: read_input_def Let_def split: option.splits sum.splits)

lemma initialize_dataset_heap:
  "snd (initialize_dataset T md kw h) =
     (if md = ''protein'' then snd (read_input T kw h) else h)"
  by (simp add: initialize_dataset_def split: prod.splits sum.splits)

lemma built_abundance_input:
  "column (built_dataset T arr m) ''abundance_input'' = float_values arr"
  using getitem_built [of T arr m "''abundance_input''"]
  by (simp add: column_def getitem_def split: option.splits)

text \<open>
  Claim C10. Constructing in mode \<open>protein\<close> with an abundance list shorter than the
  table appends zeros to the caller's list object itself, until it has one entry for each
  row of the table; no other list object changes. This happens whether or not the
  construction then succeeds; when it succeeds, the column \<open>abundance_input\<close> holds the
  entries of the extended list, as floats.
\<close>

theorem abundance_list_extended_in_place:
  assumes "kw_abundance kw = Some r" and "length (h r) < length (index T)"
  shows "snd (initialize_dataset T ''protein'' kw h) r
           = h r @ replicate (length (index T) - length (h r)) (PyInt 0)
       \<and> length (snd (initialize_dataset T ''protein'' kw h) r) = length (index T)
       \<and> (\<forall>r'. r' \<noteq> r \<longrightarrow> snd (initialize_dataset T ''protein'' kw h) r' = h r')
       \<and> (\<forall>inst h'. initialize_dataset T ''protein'' kw h = (Inr inst, h')
             \<longrightarrow> column (dataset inst) ''abundance_input'' = map float_of (h' r))"
proof -
  have "column (dataset inst) ''abundance_input'' = map float_of (h' r)"
    if "initialize_dataset T ''protein'' kw h = (Inr inst, h')" for inst h'
    using initialize_dataset_Inr [OF that] assms(1)
    by (auto simp: built_abundance_input float_values_to_array)
  then show ?thesis
    using assms by (simp add: initialize_dataset_heap read_input_heap pad_abundance_def)
qed

theorem abundance_list_extended_in_place_witness:
  "kw_abundance abundance_kw = Some 0
   \<and> length (caller_heap 0) < length (index small_table)
   \<and> caller_heap 0 = [PyInt 1, PyInt 3]
   \<and> snd (initialize_dataset small_table ''protein'' abundance_kw caller_heap) 0
       = [PyInt 1, PyInt 3, PyInt 0, PyInt 0, PyInt 0]
   \<and> column (dataset small_inst) ''abundance_input'' = [Fin 1, Fin 3, Fin 0, Fin 0, Fin 0]"
proof -
  have a: "kw_abundance abundance_kw = Some 0" by (simp add: abundance_kw_def)
  have b: "length (caller_heap 0) < length (index small_table)"
    by (simp add: caller_heap_def small_table_def)
  have c: "column (dataset small_inst) ''abundance_input'' = [Fin 1, Fin 3, Fin 0, Fin 0, Fin 0]"
    by (simp add: small_defs column_def)
  show ?thesis
    using abundance_list_extended_in_place
            [where kw = abundance_kw and r = 0 and h = caller_heap and T = small_table] a b c
    by (simp add: caller_heap_def small_table_def)
qed

section \<open>When construction fails\<close>

lemma read_input_isl:
  "isl (fst (read_input T kw h)) \<longleftrightarrow>
     (case kw_abundance kw of
        Some r \<Rightarrow> length (index T) < length (h r)
      | None \<Rightarrow> (case kw_sequence kw of None \<Rightarrow> True | Some s \<Rightarrow> length (index T) \<noteq> 24))"
  by (auto simp: read_input_def assign_abundance_def Let_def setitem_list_def pad_abundance_def
      count_residues_def split: option.splits)


lemma getitem_isl: "isl (getitem df c) \<longleftrightarrow> map_of (columns df) c = None"
  by (simp add: getitem_def split: option.splits)

text \<open>
  Claim C7, as amended. Construction fails exactly when the mode is not \<open>protein\<close>, or
  neither an abundance list nor a sequence is given, or the abundance list has more
  entries than the table has rows, or only a sequence is given and the table does not
  have 24 rows, or the table has no \<open>molar_mass\<close> column, or \<open>pka_data\<close> names no column.
  When both inputs are given, the abundance list is used and the sequence is ignored.
\<close>

theorem construction_fails_iff:
  "isl (fst (initialize_dataset T md kw h)) \<longleftrightarrow>
     md \<noteq> ''protein''
     \<or> (case kw_abundance kw of
          Some r \<Rightarrow> length (index T) < length (h r)
        | None \<Rightarrow> (case kw_sequence kw of None \<Rightarrow> True | Some s \<Rightarrow> length (index T) \<noteq> 24))
     \<or> isl (getitem T ''molar_mass'')
     \<or> (select_pka_data kw \<notin> {''abundance_input'', ''abundance_norm'', ''mass_percent''}
         \<and> isl (getitem T (select_pka_data kw)))"
proof (cases "md = ''protein''")
  case False
  then show ?thesis by (simp add: initialize_dataset_def)
next
  case md: True
  show ?thesis
  proof (cases "read_input T kw h")
    case (Pair res h')
    show ?thesis
    proof (cases res)
      case (Inl e)
      with Pair md read_input_isl [of T kw h] show ?thesis
        by (simp add: initialize_dataset_def)
    next
      case (Inr t)
      obtain ds0 arr sq nres where t: "t = (ds0, arr, sq, nres)" by (cases t)
      from read_input_Inr [of T kw h ds0 arr sq nres h'] Pair Inr t have
        a: "ds0 = T\<lparr>columns := AList.update ''abundance_input'' (float_values arr) (columns T)\<rparr>"
        by auto
      have ga: "getitem ds0 ''abundance_input'' = Inr (float_values arr)"
        by (simp add: a getitem_update)
      have gm: "getitem ds0 ''molar_mass'' = getitem T ''molar_mass''"
        by (simp add: a getitem_update)
      have ri: "\<not> (case kw_abundance kw of
          Some r \<Rightarrow> length (index T) < length (h r)
        | None \<Rightarrow> (case kw_sequence kw of None \<Rightarrow> True | Some s \<Rightarrow> length (index T) \<noteq> 24))"
        using read_input_isl [of T kw h] Pair Inr by simp
      show ?thesis
      proof (cases "getitem T ''molar_mass''")
        case (Inl e)
        then show ?thesis
          using md Pair Inr t anc_built [OF ga, of arr] gm
          by (simp add: initialize_dataset_def)
      next
        case m: (Inr m)
        have nz: "add_normalized_columns ds0 arr = Inr (built_dataset T arr m)"
          using anc_built [OF ga, of arr] gm m by (simp add: built_dataset_def a)
        have "isl (fst (initialize_dataset T md kw h)) \<longleftrightarrow>
                isl (getitem (built_dataset T arr m) (select_pka_data kw))"
          using md Pair Inr t nz by (simp add: initialize_dataset_def split: sum.splits)
        also have "\<dots> \<longleftrightarrow>
            (select_pka_data kw \<notin> {''abundance_input'', ''abundance_norm'', ''mass_percent''}
             \<and> isl (getitem T (select_pka_data kw)))"
          by (simp add: getitem_built)
        finally show ?thesis using md ri m by simp
      qed
    qed
  qed
qed

lemma both_constructed:
  "initialize_dataset small_table ''protein'' both_kw caller_heap =
     (Inr (small_inst\<lparr>kwargs := both_kw\<rparr>), caller_heap(0 := [PyInt 1, PyInt 3, PyInt 0, PyInt 0, PyInt 0]))"
  by (simp add: eval_defs small_defs both_kw_def)

theorem construction_fails_iff_witness:
  "\<not> isl (fst (initialize_dataset small_table ''protein'' both_kw caller_heap))
   \<and> isl (fst (initialize_dataset small_table ''protein''
              \<lparr>kw_abundance = None, kw_sequence = None, kw_pka_data = None\<rparr> caller_heap))
   \<and> isl (fst (initialize_dataset small_table ''protein''
              \<lparr>kw_abundance = None, kw_sequence = Some ''DK'', kw_pka_data = None\<rparr> caller_heap))
   \<and> isl (fst (initialize_dataset small_table ''polymer'' abundance_kw caller_heap))"
  using construction_fails_iff [of small_table "''protein''" both_kw caller_heap]
    construction_fails_iff [of small_table "''protein''"
       "\<lparr>kw_abundance = None, kw_sequence = None, kw_pka_data = None\<rparr>" caller_heap]
    construction_fails_iff [of small_table "''protein''"
       "\<lparr>kw_abundance = None, kw_sequence = Some ''DK'', kw_pka_data = None\<rparr>" caller_heap]
    construction_fails_iff [of small_table "''polymer''" abundance_kw caller_heap]
  by (simp add: both_kw_def abundance_kw_def caller_heap_def small_table_def getitem_def
      select_pka_data_def)

text \<open>
  Claim C7 as stated rejects a call that gives both inputs. The constructor accepts it:
  the instance is the one built from the abundance list alone, with no sequence.
\<close>

theorem both_inputs_accepted:
  "fst (initialize_dataset small_table ''protein'' both_kw caller_heap)
     = Inr (small_inst\<lparr>kwargs := both_kw\<rparr>)
   \<and> amino_acid_sequence (small_inst\<lparr>kwargs := both_kw\<rparr>) = None
   \<and> column (dataset (small_inst\<lparr>kwargs := both_kw\<rparr>)) ''abundance_input''
       = [Fin 1, Fin 3, Fin 0, Fin 0, Fin 0]"
  by (simp add: both_constructed) (simp add: small_defs column_def)

section \<open>Normalized abundances\<close>



lemma but_last2_map: "but_last2 (map f xs) = map f (but_last2 xs)"
  by (simp add: but_last2_def take_map)

lemma last2_map: "last2 (map f xs) = map f (last2 xs)"
  by (simp add: last2_def drop_map)






text \<open>
  The instance built from the sequence \<open>DTHK\<close> has four residues and the two termini:
  the divisor is 4, every entry present is \<open>1 / 4\<close>, the termini included, and the
  residue entries sum to 1. The instance built from the list \<open>[1, 3]\<close> has the entries
  \<open>1 / 4\<close> and \<open>3 / 4\<close>.
\<close>

lemma wf_protein_table: "wf_dataframe protein_table"
  by (simp add: wf_dataframe_def protein_table_def)

lemmas protein_eval = constructed_def eval_defs sequence_kw_def
  protein_table_def count_residues_def str_count.simps column_def

lemma protein_constructed:
  "constructed protein_table ''protein'' sequence_kw caller_heap \<noteq> None"
  by (simp add: protein_eval)



section \<open>The charge curve\<close>

text \<open>
  The three columns that \<open>calc_charge\<close> and \<open>calc_charge_curve\<close> read are there in
  every instance built from a table with a \<open>charge_indicator\<close> column.
\<close>

lemma constructed_instance_columns:
  assumes "initialize_dataset T md kw h = (Inr inst, h')"
    and "getitem T ''charge_indicator'' = Inr ci"
  shows "\<exists>ci' an pk.
           getitem (IEP_dataset inst) ''charge_indicator'' = Inr ci'
         \<and> getitem (IEP_dataset inst) ''abundance_norm'' = Inr an
         \<and> getitem (IEP_dataset inst) (pka_data inst) = Inr pk"
proof -
  from initialize_dataset_Inr [OF assms(1)] obtain a m pk where
    ds: "dataset inst = built_dataset T a m"
    and pk: "getitem (dataset inst) (pka_data inst) = Inr pk"
    and iep: "IEP_dataset inst = iloc (dataset inst) (data_mask pk)"
    by blast
  show ?thesis
    using assms(2) pk by (simp add: iep getitem_iloc) (simp add: ds getitem_built)
qed

lemma linspace_negative: "N < 0 \<Longrightarrow> linspace lo hi N = Inl ValueError"
  by (simp add: linspace_def)

lemma linspace_isl: "isl (linspace lo hi N) \<longleftrightarrow> N < 0"
  by (simp add: linspace_def Let_def)

lemma linspace_length: "linspace lo hi N = Inr xs \<Longrightarrow> length xs = nat N"
  by (auto simp: linspace_def Let_def split: if_splits)

lemma linspace_Fin:
  assumes "0 \<le> N"
  shows "linspace (Fin lo) (Fin hi) N = Inr (map Fin (equally_spaced lo hi N))"
proof -
  let ?n = "nat N"
  let ?dv = "real_of_int (N - 1)"
  let ?f = "\<lambda>i. lo + real i * (hi - lo) / (real_of_int N - 1)"
  show ?thesis
  proof (cases "1 < N")
    case False
    with assms have "N = 0 \<or> N = 1" by linarith
    then show ?thesis
      by (auto simp: linspace_def equally_spaced_def fsub_def)
  next
    case True
    then have dv: "0 < ?dv" by simp
    let ?step = "fdiv (fsub (Fin hi) (Fin lo)) (Fin ?dv)"
    have step: "?step = Fin ((hi - lo) / ?dv)"
      using dv by (simp add: fsub_def)
    let ?y2 = "map (\<lambda>v. fadd v (Fin lo))
        (if ?step = Fin 0
         then map (\<lambda>v. fmul (fdiv v (Fin ?dv)) (fsub (Fin hi) (Fin lo)))
                  (map (\<lambda>i. Fin (real i)) [0..<?n])
         else map (\<lambda>v. fmul v ?step) (map (\<lambda>i. Fin (real i)) [0..<?n]))"
    have y2: "?y2 = map (\<lambda>i. Fin (?f i)) [0..<?n]"
      using dv by (auto simp: step fsub_def)
    have lin: "linspace (Fin lo) (Fin hi) N = Inr (?y2[?n - 1 := Fin hi])"
      using True dv by (simp add: linspace_def Let_def)
    have "(map (\<lambda>i. Fin (?f i)) [0..<?n])[?n - 1 := Fin hi] = map (\<lambda>i. Fin (?f i)) [0..<?n]"
    proof (rule list_update_same_conv [THEN iffD2])
      show "?n - 1 < length (map (\<lambda>i. Fin (?f i)) [0..<?n])" using True by simp
      have "real (?n - 1) = real_of_int N - 1" using True by (simp add: of_nat_diff)
      then have "?f (?n - 1) = hi" using True by simp
      then show "map (\<lambda>i. Fin (?f i)) [0..<?n] ! (?n - 1) = Fin hi"
        using True by simp
    qed
    with lin y2 show ?thesis by (simp add: equally_spaced_def comp_def)
  qed
qed

lemma charge_matrix_rows:
  "map np_sum (charge_matrix ci an pk pH) = map (\<lambda>p. np_sum (charge_terms ci an pk p)) pH"
  by (simp add: charge_matrix_def charge_terms_def comp_def)

lemma calc_charge_columns:
  assumes "getitem (IEP_dataset inst) ''charge_indicator'' = Inr ci"
    and "getitem (IEP_dataset inst) ''abundance_norm'' = Inr an"
    and "getitem (IEP_dataset inst) (pka_data inst) = Inr pk"
  shows "calc_charge inst pH = Inr (np_sum (charge_terms ci an pk pH))"
  using assms by (simp add: calc_charge_def)

lemma calc_charge_curve_columns:
  assumes "getitem (IEP_dataset inst) ''charge_indicator'' = Inr ci"
    and "getitem (IEP_dataset inst) ''abundance_norm'' = Inr an"
    and "getitem (IEP_dataset inst) (pka_data inst) = Inr pk"
  shows "calc_charge_curve inst [lo, hi] N =
     (case linspace lo hi N of
        Inl e \<Rightarrow> Inl e
      | Inr pH \<Rightarrow> Inr (pH, map (\<lambda>p. np_sum (charge_terms ci an pk p)) pH))"
  using assms by (simp add: calc_charge_curve_def charge_matrix_rows split: sum.splits)

lemma equally_spaced_sorted:
  assumes "lo \<le> hi"
  shows "sorted (equally_spaced lo hi N)"
proof (cases "1 < N")
  case False
  then have "nat N \<le> 1" by simp
  then have "length (equally_spaced lo hi N) \<le> 1" by (simp add: equally_spaced_def)
  then show ?thesis
    by (cases "equally_spaced lo hi N") (auto simp: le_Suc_eq)
next
  case True
  then have d: "0 < real_of_int N - 1" by simp
  have "i \<le> j \<Longrightarrow> lo + real i * (hi - lo) / (real_of_int N - 1)
        \<le> lo + real j * (hi - lo) / (real_of_int N - 1)" for i j
    using assms d by (simp add: divide_right_mono mult_right_mono)
  then show ?thesis
    by (auto simp: equally_spaced_def sorted_iff_nth_mono)
qed

lemma equally_spaced_ends:
  assumes "2 \<le> N"
  shows "hd (equally_spaced lo hi N) = lo" and "last (equally_spaced lo hi N) = hi"
proof -
  from assms obtain k where k: "nat N = Suc (Suc k)"
    by (cases "nat N"; simp) (case_tac nat; simp)
  then have r: "real_of_int N = real k + 2"
    using assms by (metis of_nat_Suc of_nat_nat add.commute add_2_eq_Suc' of_nat_add
        of_int_of_nat_eq order_trans zero_le_numeral numeral_2_eq_2 of_nat_numeral)
  show "hd (equally_spaced lo hi N) = lo"
    by (simp add: equally_spaced_def k upt_conv_Cons del: upt_Suc)
  show "last (equally_spaced lo hi N) = hi"
    using r by (simp add: equally_spaced_def k last_map)
qed

lemma small_inst_columns:
  "getitem (IEP_dataset small_inst) ''charge_indicator'' = Inr [Fin (- 1), Fin 1, Fin 1, Fin (- 1)]"
  "getitem (IEP_dataset small_inst) ''abundance_norm'' = Inr [Fin (1 / 4), Fin (3 / 4), Fin 0, Fin 0]"
  "getitem (IEP_dataset small_inst) (pka_data small_inst) = Inr [Fin 4, Fin 10, Fin 8, Fin 3]"
  by (simp_all add: small_defs getitem_def iloc_def select_def)


lemmas curve_eval = linspace_def Let_def charge_terms_def vmul_def vdiv_def fsub_def powr_minus
  upt_conv_Cons

text \<open>
  Claim C4, as amended. For every instance whose \<open>IEP_dataset\<close> has the three columns
  read, every finite \<open>lo\<close> and \<open>hi\<close> and every \<open>N \<ge> 0\<close>, \<open>calc_charge_curve\<close> returns two
  sequences of length \<open>N\<close>: the pH values \<open>lo + i * (hi - lo) / (N - 1)\<close>, which are in
  increasing order when \<open>lo \<le> hi\<close> and run from \<open>lo\<close> to \<open>hi\<close> when \<open>N \<ge> 2\<close>, and at
  every index the value of \<open>calc_charge\<close> at that pH.
\<close>

theorem calc_charge_curve_samples:
  assumes "getitem (IEP_dataset inst) ''charge_indicator'' = Inr ci"
    and "getitem (IEP_dataset inst) ''abundance_norm'' = Inr an"
    and "getitem (IEP_dataset inst) (pka_data inst) = Inr pk"
    and "0 \<le> N"
  shows "\<exists>curve. calc_charge_curve inst [Fin lo, Fin hi] N
                   = Inr (map Fin (equally_spaced lo hi N), curve)
           \<and> length (equally_spaced lo hi N) = nat N
           \<and> length curve = nat N
           \<and> (\<forall>i < nat N. calc_charge inst (Fin (equally_spaced lo hi N ! i)) = Inr (curve ! i))
           \<and> (2 \<le> N \<longrightarrow> hd (equally_spaced lo hi N) = lo \<and> last (equally_spaced lo hi N) = hi)
           \<and> (lo \<le> hi \<longrightarrow> sorted (equally_spaced lo hi N))"
proof -
  let ?pH = "map Fin (equally_spaced lo hi N)"
  let ?curve = "map (\<lambda>p. np_sum (charge_terms ci an pk p)) ?pH"
  have len: "length (equally_spaced lo hi N) = nat N"
    by (simp add: equally_spaced_def)
  have "calc_charge_curve inst [Fin lo, Fin hi] N = Inr (?pH, ?curve)"
    by (simp add: calc_charge_curve_columns [OF assms(1-3)] linspace_Fin [OF assms(4)])
  moreover have "length ?curve = nat N" by (simp add: len)
  moreover have "\<forall>i < nat N. calc_charge inst (Fin (equally_spaced lo hi N ! i)) = Inr (?curve ! i)"
    by (simp add: calc_charge_columns [OF assms(1-3)] len)
  ultimately show ?thesis
    using len equally_spaced_ends [of N lo hi] equally_spaced_sorted [of lo hi N]
    by blast
qed

theorem calc_charge_curve_samples_witness:
  "getitem (IEP_dataset small_inst) ''charge_indicator'' = Inr [Fin (- 1), Fin 1, Fin 1, Fin (- 1)]
   \<and> calc_charge_curve small_inst [Fin 0, Fin 14] 3
       = Inr ([Fin 0, Fin 7, Fin 14],
              [Fin (300019999999999 / 400040000040004), Fin (500 / 1001),
               Fin (- (99979999999997 / 400040000040004))])
   \<and> equally_spaced 0 14 3 = [0, 7, 14]
   \<and> calc_charge small_inst (Fin 7) = Inr (Fin (500 / 1001))"
proof -
  have e: "equally_spaced 0 14 3 = [0, 7, 14]"
    by (simp add: equally_spaced_def upt_conv_Cons)
  have c: "calc_charge_curve small_inst [Fin 0, Fin 14] 3
       = Inr ([Fin 0, Fin 7, Fin 14],
              [Fin (300019999999999 / 400040000040004), Fin (500 / 1001),
               Fin (- (99979999999997 / 400040000040004))])"
    by (simp add: calc_charge_curve_columns [OF small_inst_columns] curve_eval)
  from calc_charge_curve_samples [OF small_inst_columns, of 3 0 14] obtain curve where
    1: "calc_charge_curve small_inst [Fin 0, Fin 14] 3 = Inr (map Fin (equally_spaced 0 14 3), curve)"
    and 2: "\<forall>i < nat 3. calc_charge small_inst (Fin (equally_spaced 0 14 3 ! i)) = Inr (curve ! i)"
    by auto
  from 1 c have "curve = [Fin (300019999999999 / 400040000040004), Fin (500 / 1001),
               Fin (- (99979999999997 / 400040000040004))]"
    by simp
  with 2 [rule_format, of 1] e have "calc_charge small_inst (Fin 7) = Inr (Fin (500 / 1001))"
    by simp
  with small_inst_columns(1) c e show ?thesis by simp
qed

text \<open>
  Claim C4 as stated, for every \<open>N\<close>, fails at \<open>N = 1\<close>, where the only sample is \<open>lo\<close>
  and \<open>hi\<close> is not among the pH values, and at a negative \<open>N\<close>, where numpy raises
  ValueError.
\<close>

theorem calc_charge_curve_one_point:
  "calc_charge_curve small_inst [Fin 0, Fin 14] 1
     = Inr ([Fin 0], [Fin (300019999999999 / 400040000040004)])
   \<and> calc_charge_curve small_inst [Fin 0, Fin 14] (- 1) = Inl ValueError"
  by (simp add: calc_charge_curve_columns [OF small_inst_columns] curve_eval)

text \<open>
  Claim C6, as amended. \<open>calc_charge_curve\<close> validates neither the range nor the number
  of points: on an instance whose \<open>IEP_dataset\<close> has the three columns read it raises
  exactly when \<open>data_points\<close> is negative, and the error is numpy's ValueError. It
  assigns no attribute, so the instance is the same after the call.
\<close>

theorem calc_charge_curve_raises_iff:
  assumes "getitem (IEP_dataset inst) ''charge_indicator'' = Inr ci"
    and "getitem (IEP_dataset inst) ''abundance_norm'' = Inr an"
    and "getitem (IEP_dataset inst) (pka_data inst) = Inr pk"
  shows "(isl (calc_charge_curve inst [lo, hi] N) \<longleftrightarrow> N < 0)
       \<and> (N < 0 \<longrightarrow> calc_charge_curve inst [lo, hi] N = Inl ValueError)"
  using linspace_isl [of lo hi N] linspace_negative [of N lo hi]
  by (auto simp: calc_charge_curve_columns [OF assms] split: sum.splits)

theorem calc_charge_curve_raises_iff_witness:
  "getitem (IEP_dataset small_inst) (pka_data small_inst) = Inr [Fin 4, Fin 10, Fin 8, Fin 3]
   \<and> \<not> isl (calc_charge_curve small_inst [Fin 14, Fin 0] 1)
   \<and> calc_charge_curve small_inst [Fin 14, Fin 0] (- 2) = Inl ValueError"
  using calc_charge_curve_raises_iff [OF small_inst_columns, of "Fin 14" "Fin 0" 1]
    calc_charge_curve_raises_iff [OF small_inst_columns, of "Fin 14" "Fin 0" "- 2"]
    small_inst_columns(3)
  by simp

text \<open>
  Claim C6 as stated has the call raise for \<open>lo > hi\<close> and for fewer than two points.
  With \<open>lo = 14 > hi = 0\<close> it returns the samples in decreasing order, and with no
  points it returns two empty sequences.
\<close>

theorem calc_charge_curve_no_validation:
  "calc_charge_curve small_inst [Fin 14, Fin 0] 2
     = Inr ([Fin 14, Fin 0],
            [Fin (- (99979999999997 / 400040000040004)),
             Fin (300019999999999 / 400040000040004)])
   \<and> calc_charge_curve small_inst [Fin 0, Fin 14] 0 = Inr ([], [])"
  by (simp add: calc_charge_curve_columns [OF small_inst_columns] curve_eval)

section \<open>The isoelectric point when there is no sign change\<close>

lemma bisect_solver_contract: "bracket_contract bisect_solver"
  by (auto simp: bracket_contract_def bisect_solver_def same_sign_def fl_pos_def fl_neg_def)

lemma acidic_row_titration:
  assumes "acidic_row row"
  shows "\<exists>r. titration (Fin p) row = Fin r \<and> r \<le> 0 \<and> (present_row row \<longrightarrow> r < 0)"
proof -
  obtain c a k where row: "row = (c, a, k)" by (cases row)
  from assms row obtain c' a' k' where
    v: "c = Fin c'" "a = Fin a'" "k = Fin k'" and d: "a' = 0 \<or> (c' = - 1 \<and> 0 < a')"
    by (auto simp: acidic_row_def split: fl.splits)
  have pos: "0 < 1 + 10 powr (c' * (p - k'))"
    by (simp add: add_pos_nonneg)
  then have t: "titration (Fin p) row = Fin (c' * a' / (1 + 10 powr (c' * (p - k'))))"
    by (simp add: titration_def row v fsub_def)
  from d show ?thesis
  proof
    assume "a' = 0"
    with t show ?thesis by (simp add: present_row_def row v fl_pos_def)
  next
    assume "c' = - 1 \<and> 0 < a'"
    then have "c' * a' / (1 + 10 powr (c' * (p - k'))) < 0"
      using pos by (simp add: divide_neg_pos)
    with t show ?thesis by simp
  qed
qed

lemma acidic_rows_sum:
  assumes "list_all acidic_row rows"
  shows "\<exists>s. np_sum (map (titration (Fin p)) rows) = Fin s \<and> s \<le> 0
           \<and> (list_ex present_row rows \<longrightarrow> s < 0)"
  using assms
proof (induction rows)
  case Nil
  then show ?case by simp
next
  case (Cons row rows)
  then obtain s where s: "np_sum (map (titration (Fin p)) rows) = Fin s" "s \<le> 0"
    "list_ex present_row rows \<longrightarrow> s < 0"
    by auto
  from Cons.prems acidic_row_titration [of row p] obtain r where
    r: "titration (Fin p) row = Fin r" "r \<le> 0" "present_row row \<longrightarrow> r < 0"
    by auto
  have "np_sum (map (titration (Fin p)) (row # rows)) = Fin (r + s)"
    by (simp add: r s)
  moreover have "r + s \<le> 0" using r s by simp
  moreover have "list_ex present_row (row # rows) \<longrightarrow> r + s < 0"
    using r s by (auto intro: add_neg_nonpos add_nonpos_neg)
  ultimately show ?case by blast
qed

lemma only_acidic_charge:
  assumes "only_acidic_groups inst"
  shows "\<exists>s. calc_charge inst (Fin p) = Inr (Fin s) \<and> s < 0"
proof -
  from assms obtain ci an pk where
    c: "getitem (IEP_dataset inst) ''charge_indicator'' = Inr ci"
       "getitem (IEP_dataset inst) ''abundance_norm'' = Inr an"
       "getitem (IEP_dataset inst) (pka_data inst) = Inr pk"
    and rows: "list_all acidic_row (zip ci (zip an pk))"
              "list_ex present_row (zip ci (zip an pk))"
    by (auto simp: only_acidic_groups_def split: sum.splits)
  from acidic_rows_sum [OF rows(1), of p] rows(2) obtain s where
    "np_sum (map (titration (Fin p)) (zip ci (zip an pk))) = Fin s" "s < 0"
    by auto
  then show ?thesis
    by (simp add: calc_charge_columns [OF c] charge_terms_rows)
qed

lemma calc_IEP_same_sign:
  assumes "bracket_contract brentq"
    and "calc_charge inst lo = Inr x" "calc_charge inst hi = Inr y" "same_sign x y"
  shows "calc_IEP brentq inst [lo, hi] = Inr NaN"
proof -
  from assms have "brentq (calc_charge inst) lo hi = Inl ValueError"
    unfolding bracket_contract_def by blast
  then show ?thesis by (simp add: calc_IEP_def)
qed

text \<open>
  Claim C3, as amended. Let the solver raise ValueError whenever the function values at
  the ends of the bracket have the same strict sign. If \<open>calc_charge\<close> returns values of
  the same strict sign at \<open>lo\<close> and \<open>hi\<close>, then \<open>calc_IEP\<close> returns NaN and raises
  nothing. In particular an instance in which every active group is either absent or has
  charge indicator \<open>-1\<close> and a positive abundance, at least one being present, yields
  NaN over \<open>[0, 14]\<close>.
\<close>

theorem calc_IEP_without_bracket:
  assumes "bracket_contract brentq"
  shows "(calc_charge inst lo = Inr x \<and> calc_charge inst hi = Inr y \<and> same_sign x y
            \<longrightarrow> calc_IEP brentq inst [lo, hi] = Inr NaN)
       \<and> (only_acidic_groups inst \<longrightarrow> calc_IEP brentq inst [Fin 0, Fin 14] = Inr NaN)"
proof (intro conjI impI)
  assume "calc_charge inst lo = Inr x \<and> calc_charge inst hi = Inr y \<and> same_sign x y"
  then show "calc_IEP brentq inst [lo, hi] = Inr NaN"
    using calc_IEP_same_sign [OF assms] by blast
next
  assume a: "only_acidic_groups inst"
  from only_acidic_charge [OF a, of 0] obtain s where s: "calc_charge inst (Fin 0) = Inr (Fin s)" "s < 0"
    by blast
  from only_acidic_charge [OF a, of 14] obtain t where t: "calc_charge inst (Fin 14) = Inr (Fin t)" "t < 0"
    by blast
  have "same_sign (Fin s) (Fin t)"
    using s t by (simp add: same_sign_def fl_neg_def)
  then show "calc_IEP brentq inst [Fin 0, Fin 14] = Inr NaN"
    using calc_IEP_same_sign [OF assms s(1) t(1)] by blast
qed

lemma acid_inst_constructed:
  "initialize_dataset small_table ''protein'' acid_kw caller_heap =
     (Inr acid_inst, caller_heap(1 := [PyInt 2, PyInt 0, PyInt 0, PyInt 0, PyInt 0]))"
  by (simp add: eval_defs small_defs acid_kw_def acid_inst_def)

lemma acid_inst_only_acidic: "only_acidic_groups acid_inst"
  by (simp add: only_acidic_groups_def acid_inst_def getitem_def acidic_row_def present_row_def
      fl_pos_def)

lemma small_inst_charges:
  "calc_charge small_inst (Fin 0) = Inr (Fin (300019999999999 / 400040000040004))"
  "calc_charge small_inst (Fin 3) = Inr (Fin (29090909 / 40000004))"
  by (simp_all add: calc_charge_columns [OF small_inst_columns] charge_terms_def vmul_def vdiv_def
      fsub_def powr_minus)

theorem calc_IEP_without_bracket_witness:
  "bracket_contract bisect_solver
   \<and> calc_charge small_inst (Fin 0) = Inr (Fin (300019999999999 / 400040000040004))
   \<and> calc_charge small_inst (Fin 3) = Inr (Fin (29090909 / 40000004))
   \<and> calc_IEP bisect_solver small_inst [Fin 0, Fin 3] = Inr NaN
   \<and> initialize_dataset small_table ''protein'' acid_kw caller_heap =
       (Inr acid_inst, caller_heap(1 := [PyInt 2, PyInt 0, PyInt 0, PyInt 0, PyInt 0]))
   \<and> only_acidic_groups acid_inst
   \<and> calc_IEP bisect_solver acid_inst [Fin 0, Fin 14] = Inr NaN"
proof -
  have s: "same_sign (Fin (300019999999999 / 400040000040004)) (Fin (29090909 / 40000004))"
    by (simp add: same_sign_def fl_pos_def)
  show ?thesis
    using calc_IEP_without_bracket [OF bisect_solver_contract, of small_inst "Fin 0"
        "Fin (300019999999999 / 400040000040004)" "Fin 3" "Fin (29090909 / 40000004)"]
      calc_IEP_without_bracket [OF bisect_solver_contract, of acid_inst]
      bisect_solver_contract small_inst_charges s acid_inst_constructed acid_inst_only_acidic
    by simp
qed

lemma glycine_inst_constructed:
  "initialize_dataset acid_table ''protein'' glycine_kw caller_heap =
     (Inr glycine_inst, caller_heap(2 := [PyInt 0, PyInt 1, PyInt 0, PyInt 0]))"
  by (simp add: eval_defs acid_table_def glycine_kw_def glycine_inst_def caller_heap_def)

lemma glycine_inst_columns:
  "getitem (IEP_dataset glycine_inst) ''charge_indicator'' = Inr [Fin (- 1), Fin (- 1)]"
  "getitem (IEP_dataset glycine_inst) ''abundance_norm'' = Inr [Fin 0, Fin 0]"
  "getitem (IEP_dataset glycine_inst) (pka_data glycine_inst) = Inr [Fin 4, Fin 3]"
  by (simp_all add: glycine_inst_def getitem_def)

text \<open>
  Claim C3 as stated has every instance whose active groups all have charge indicator
  \<open>-1\<close> yield NaN. When none of them is present the charge is 0 at every pH; a solver
  that, as \<open>brentq\<close> does, returns an end of the bracket at which the function is zero
  gives the isoelectric point 0 and not NaN.
\<close>

theorem calc_IEP_zero_charge:
  "initialize_dataset acid_table ''protein'' glycine_kw caller_heap =
     (Inr glycine_inst, caller_heap(2 := [PyInt 0, PyInt 1, PyInt 0, PyInt 0]))
   \<and> getitem (IEP_dataset glycine_inst) ''charge_indicator'' = Inr [Fin (- 1), Fin (- 1)]
   \<and> bracket_contract bisect_solver
   \<and> calc_charge glycine_inst (Fin 0) = Inr (Fin 0)
   \<and> calc_charge glycine_inst (Fin 14) = Inr (Fin 0)
   \<and> calc_IEP bisect_solver glycine_inst [Fin 0, Fin 14] = Inr (Fin 0)"
  by (simp add: glycine_inst_constructed glycine_inst_columns bisect_solver_contract
      calc_IEP_def bisect_solver_def calc_charge_columns [OF glycine_inst_columns]
      charge_terms_def vmul_def vdiv_def fsub_def powr_minus)

section \<open>The mean residue molar mass\<close>

text \<open>
  When the two terminus rows have a defined \<open>molar_mass_residue\<close>, the slice \<open>[:-2]\<close>
  of the filtered columns removes exactly them, and the code computes the
  specification's sum.
\<close>

lemma select_append:
  "length m1 = length xs1 \<Longrightarrow> select (m1 @ m2) (xs1 @ xs2) = select m1 xs1 @ select m2 xs2"
  by (simp add: select_def)

lemma select_vmul: "vmul (select k xs) (select k ys) = select k (vmul xs ys)"
  by (simp add: vmul_def select_zip select_map)

lemma split_last2:
  assumes "length xs = n" "2 \<le> n"
  shows "xs = take (n - 2) xs @ [xs ! (n - 2), xs ! (n - 1)]"
proof -
  have "drop (n - 2) xs = [xs ! (n - 2), xs ! (n - 1)]"
    using assms by (auto intro!: nth_equalityI simp: nth_Cons split: nat.splits)
  then show ?thesis
    by (metis append_take_drop_id)
qed

lemma but_last2_select:
  assumes "length m = n" "length xs = n" "2 \<le> n"
    and "\<not> isna (m ! (n - 2))" "\<not> isna (m ! (n - 1))"
  shows "but_last2 (select (data_mask m) xs)
           = select (data_mask (take (n - 2) m)) (take (n - 2) xs)"
proof -
  let ?k = "data_mask (take (n - 2) m)"
  have m: "data_mask m = ?k @ [True, True]"
  proof -
    have "data_mask m = data_mask (take (n - 2) m @ [m ! (n - 2), m ! (n - 1)])"
      using split_last2 [OF assms(1,3)] by simp
    then show ?thesis using assms(4,5) by (simp add: data_mask_def)
  qed
  have "select (data_mask m) xs
          = select (?k @ [True, True]) (take (n - 2) xs @ [xs ! (n - 2), xs ! (n - 1)])"
    using split_last2 [OF assms(2,3)] m by simp
  also have "\<dots> = select ?k (take (n - 2) xs) @ [xs ! (n - 2), xs ! (n - 1)]"
    using assms(1,2) by (subst select_append) (simp_all add: data_mask_def)
  finally show ?thesis by (simp add: but_last2_def)
qed

lemma residue_sum_filtered:
  assumes "length m = n" "length an = n"
  shows "vmul (select (data_mask (take (n - 2) m)) (take (n - 2) m))
              (select (data_mask (take (n - 2) m)) (take (n - 2) an))
         = map (\<lambda>g. fmul (m ! g) (an ! g)) (filter (\<lambda>g. \<not> isna (m ! g)) [0..<n - 2])"
proof -
  let ?k = "data_mask (take (n - 2) m)"
  let ?v = "vmul (take (n - 2) m) (take (n - 2) an)"
  have lv: "length ?v = n - 2" using assms by (simp add: vmul_def)
  have lk: "length ?k = length ?v" using assms by (simp add: data_mask_def lv)
  have "vmul (select ?k (take (n - 2) m)) (select ?k (take (n - 2) an)) = select ?k ?v"
    by (rule select_vmul)
  also have "\<dots> = map ((!) ?v) (filter ((!) ?k) [0..<length ?v])"
    by (rule select_nth [OF lk])
  also have "\<dots> = map (\<lambda>g. fmul (m ! g) (an ! g)) (filter (\<lambda>g. \<not> isna (m ! g)) [0..<n - 2])"
  proof -
    have f: "filter ((!) ?k) [0..<length ?v] = filter (\<lambda>g. \<not> isna (m ! g)) [0..<n - 2]"
      unfolding lv using assms by (intro filter_cong) (simp_all add: data_mask_def)
    have "map ((!) ?v) (filter (\<lambda>g. \<not> isna (m ! g)) [0..<n - 2])
            = map (\<lambda>g. fmul (m ! g) (an ! g)) (filter (\<lambda>g. \<not> isna (m ! g)) [0..<n - 2])"
      using assms by (intro map_cong) (simp_all add: vmul_def)
    with f show ?thesis by simp
  qed
  finally show ?thesis .
qed

lemma termini_sum:
  assumes "length mm = n" "length an = n"
  shows "vmul (last2 mm) (last2 an) = map (\<lambda>g. fmul (mm ! g) (an ! g)) [n - 2..<n]"
  using assms by (auto simp: vmul_def last2_def intro!: nth_equalityI)

lemma calc_mean_residue_mw_agrees:
  assumes "wf_dataframe (dataset inst)"
    and "getitem (dataset inst) ''molar_mass_residue'' = Inr m"
    and "getitem (dataset inst) ''abundance_norm'' = Inr an"
    and "getitem (dataset inst) ''molar_mass'' = Inr mm"
    and "2 \<le> length (index (dataset inst))"
    and "\<not> isna (m ! (length (index (dataset inst)) - 2))"
    and "\<not> isna (m ! (length (index (dataset inst)) - 1))"
    and "number_of_residues inst \<noteq> None \<longleftrightarrow> amino_acid_sequence inst \<noteq> None"
  shows "calc_mean_residue_mw inst = Inr (mean_residue_mw_spec inst)"
proof -
  let ?n = "length (index (dataset inst))"
  have lm: "length m = ?n" and lan: "length an = ?n" and lmm: "length mm = ?n"
    using wf_getitem_length [OF assms(1)] assms(2-4) by blast+
  have col: "column (dataset inst) ''molar_mass_residue'' = m"
    "column (dataset inst) ''abundance_norm'' = an"
    "column (dataset inst) ''molar_mass'' = mm"
    using assms(2-4) by (auto simp: column_def getitem_def split: option.splits)
  have res: "vmul (but_last2 (select (data_mask m) m)) (but_last2 (select (data_mask m) an))
      = map (\<lambda>g. fmul (m ! g) (an ! g)) (filter (\<lambda>g. \<not> isna (m ! g)) [0..<?n - 2])"
    using but_last2_select [OF lm lm assms(5-7)] but_last2_select [OF lm lan assms(5-7)]
      residue_sum_filtered [OF lm lan]
    by simp
  have ter: "vmul (last2 mm) (last2 an) = map (\<lambda>g. fmul (mm ! g) (an ! g)) [?n - 2..<?n]"
    by (rule termini_sum [OF lmm lan])
  show ?thesis
    using assms(8)
    by (simp add: calc_mean_residue_mw_def mean_residue_mw_spec_def Let_def assms(2-4)
        getitem_iloc col res ter)
qed

lemma list_all_update:
  "list_all P al \<Longrightarrow> P (k, v) \<Longrightarrow> list_all P (AList.update k v al)"
  by (induction al) auto

lemma wf_built_dataset:
  assumes "wf_dataframe T" "length (float_values arr) = length (index T)"
    and "getitem T ''molar_mass'' = Inr m"
  shows "wf_dataframe (built_dataset T arr m)"
proof -
  have lm: "length m = length (index T)"
    using wf_getitem_length [OF assms(1,3)] .
  show ?thesis
    using assms(1,2) lm
    by (simp add: wf_dataframe_def built_dataset_def setitem_series_def list_all_update)
qed

lemma constructed_mean_residue_mw:
  assumes "initialize_dataset T md kw h = (Inr inst, h')"
    and "wf_dataframe T"
    and "getitem T ''molar_mass_residue'' = Inr m"
    and "2 \<le> length (index T)"
    and "\<not> isna (m ! (length (index T) - 2))"
    and "\<not> isna (m ! (length (index T) - 1))"
  shows "calc_mean_residue_mw inst = Inr (mean_residue_mw_spec inst)"
proof -
  from initialize_dataset_Inr [OF assms(1)] obtain xs mm where
    a: "length xs = length (index T)" and mm: "getitem T ''molar_mass'' = Inr mm"
    and ds: "dataset inst = built_dataset T (to_array xs) mm"
    and src: "(amino_acid_sequence inst = None \<and> number_of_residues inst = None)
              \<or> (\<exists>s. amino_acid_sequence inst = Some s
                      \<and> number_of_residues inst = Some (length s))"
    by blast
  have la: "length (float_values (to_array xs)) = length (index T)" by (simp add: a)
  have wf: "wf_dataframe (dataset inst)"
    unfolding ds by (rule wf_built_dataset [OF assms(2) la mm])
  have g: "getitem (dataset inst) ''molar_mass_residue'' = Inr m"
    "getitem (dataset inst) ''abundance_norm'' = Inr (abundance_norm_of (to_array xs))"
    "getitem (dataset inst) ''molar_mass'' = Inr mm"
    using assms(3) mm by (simp_all add: ds getitem_built)
  have idx: "index (dataset inst) = index T" by (simp add: ds)
  show ?thesis
    by (rule calc_mean_residue_mw_agrees [OF wf g]) (use src assms(4-6) idx in auto)
qed

text \<open>
  Claim C8 has the two terminus rows and the rows with undefined \<open>molar_mass_residue\<close>
  excluded from the residue average. The theorem evaluates the code on a table whose
  terminus rows have no \<open>molar_mass_residue\<close>: the mask removes the terminus rows, and
  the slice \<open>[:-2]\<close> then removes the last two residue rows, \<open>K\<close> and \<open>G\<close>. The result
  is \<open>115 / 4\<close>, the share of \<open>D\<close> alone, where the claim's sum is \<open>499 / 4\<close>.
\<close>

theorem mean_residue_mw_drops_residues:
  "calc_mean_residue_mw small_inst = Inr (Fin (115 / 4))
   \<and> mean_residue_mw_spec small_inst = Fin (499 / 4)"
  by (simp add: calc_mean_residue_mw_def mean_residue_mw_spec_def eval_defs small_defs column_def
      upt_conv_Cons)

section \<open>The molar mass\<close>

lemma vmul_nth:
  "length xs = n \<Longrightarrow> length ys = n \<Longrightarrow>
     vmul xs ys = map (\<lambda>g. fmul (xs ! g) (ys ! g)) [0..<n]"
  by (auto simp: vmul_def intro!: nth_equalityI)

lemma series_sum_vmul:
  assumes "length xs = n" "length ys = n"
  shows "series_sum (vmul xs ys) =
     np_sum (map (\<lambda>g. fmul (xs ! g) (ys ! g))
               (filter (\<lambda>g. \<not> isna (fmul (xs ! g) (ys ! g))) [0..<n]))"
  by (simp add: series_sum_def vmul_nth [OF assms] filter_map comp_def)

text \<open>
  Claim C9, as amended. For every instance built from a well-formed table that has a
  \<open>molar_mass_residue\<close> column, \<open>calc_molar_mass\<close> raises exactly when the instance was
  built from an abundance list, and the error is AssertionError; for an instance built
  from a sequence it returns the sum of \<open>abundance_input * molar_mass_residue\<close> over the
  groups for which this product is not NaN.
\<close>

theorem calc_molar_mass_result:
  assumes "initialize_dataset T md kw h = (Inr inst, h')"
    and "wf_dataframe T"
    and "getitem T ''molar_mass_residue'' = Inr m"
  shows "(isl (calc_molar_mass inst) \<longleftrightarrow> kw_abundance kw \<noteq> None)
       \<and> (kw_abundance kw \<noteq> None \<longrightarrow> calc_molar_mass inst = Inl AssertionError)
       \<and> (kw_abundance kw = None \<longrightarrow>
            calc_molar_mass inst = Inr (molar_mass_defined (dataset inst)))"
proof -
  from initialize_dataset_Inr [OF assms(1)] obtain xs mm where
    xs: "length xs = length (index T)" and ds: "dataset inst = built_dataset T (to_array xs) mm"
    and src: "(\<exists>r. kw_abundance kw = Some r \<and> amino_acid_sequence inst = None)
              \<or> (\<exists>s. kw_abundance kw = None \<and> amino_acid_sequence inst = Some s)"
    by blast
  define a where "a = float_values (to_array xs)"
  have a: "length a = length (index T)" by (simp add: a_def xs)
  have ga: "getitem (dataset inst) ''abundance_input'' = Inr a"
    by (simp add: ds getitem_built a_def)
  have gm: "getitem (dataset inst) ''molar_mass_residue'' = Inr m"
    using assms(3) by (simp add: ds getitem_built)
  have lm: "length m = length (index T)"
    using wf_getitem_length [OF assms(2,3)] .
  have col: "column (dataset inst) ''abundance_input'' = a"
    "column (dataset inst) ''molar_mass_residue'' = m"
    using ga gm by (auto simp: column_def getitem_def split: option.splits)
  have idx: "index (dataset inst) = index T" by (simp add: ds)
  have val: "series_sum (vmul a m) = molar_mass_defined (dataset inst)"
    unfolding molar_mass_defined_def col idx by (rule series_sum_vmul [OF a lm])
  from src show ?thesis
  proof
    assume "\<exists>r. kw_abundance kw = Some r \<and> amino_acid_sequence inst = None"
    then show ?thesis by (auto simp: calc_molar_mass_def)
  next
    assume "\<exists>s. kw_abundance kw = None \<and> amino_acid_sequence inst = Some s"
    then show ?thesis by (auto simp: calc_molar_mass_def ga gm val)
  qed
qed

theorem calc_molar_mass_result_witness:
  "wf_dataframe protein_table
   \<and> kw_abundance sequence_kw = None
   \<and> map_option calc_molar_mass (constructed protein_table ''protein'' sequence_kw caller_heap)
       = Some (Inr (Fin 481))
   \<and> map_option (molar_mass_defined \<circ> dataset)
        (constructed protein_table ''protein'' sequence_kw caller_heap) = Some (Fin 481)
   \<and> calc_molar_mass small_inst = Inl AssertionError"
proof -
  from protein_constructed obtain inst where
    c: "constructed protein_table ''protein'' sequence_kw caller_heap = Some inst"
    by blast
  then obtain h' where
    i: "initialize_dataset protein_table ''protein'' sequence_kw caller_heap = (Inr inst, h')"
    by (cases "initialize_dataset protein_table ''protein'' sequence_kw caller_heap")
       (auto simp: constructed_def split: sum.splits)
  have m: "getitem protein_table ''molar_mass_residue'' =
     Inr [Fin 115, Fin 114, Fin 101, Fin 87, Fin 129, Fin 128, Fin 57, Fin 71, Fin 103,
           Fin 99, Fin 131, Fin 113, Fin 113, Fin 163, Fin 147, Fin 137, Fin 128, Fin 156,
           Fin 97, Fin 186, Fin 113, Fin 144, NaN, NaN]"
    by (simp add: getitem_def protein_table_def)
  have k: "kw_abundance sequence_kw = None" by (simp add: sequence_kw_def)
  have v: "map_option calc_molar_mass
             (constructed protein_table ''protein'' sequence_kw caller_heap)
           = Some (Inr (Fin 481))"
    by (simp add: protein_eval calc_molar_mass_def)
  have s: "getitem small_table ''molar_mass_residue'' = Inr [Fin 115, Fin 128, Fin 57, NaN, NaN]"
    by (simp add: getitem_def small_table_def)
  have ka: "kw_abundance abundance_kw \<noteq> None" by (simp add: abundance_kw_def)
  from calc_molar_mass_result [OF i wf_protein_table m] k
  have "calc_molar_mass inst = Inr (molar_mass_defined (dataset inst))" by simp
  with v c have "molar_mass_defined (dataset inst) = Fin 481" by simp
  moreover from calc_molar_mass_result [OF small_inst_constructed wf_small_table s] ka
  have "calc_molar_mass small_inst = Inl AssertionError" by simp
  ultimately show ?thesis
    using wf_protein_table k v c by simp
qed

text \<open>
  Claim C9 as stated has the sum run over all groups. For the sequence \<open>DTHK\<close> the
  products of the two terminus rows are NaN and so is the sum over all groups; the code
  returns 481, the sum over the four residues.
\<close>

theorem calc_molar_mass_skips_nan:
  "map_option calc_molar_mass (constructed protein_table ''protein'' sequence_kw caller_heap)
     = Some (Inr (Fin 481))
   \<and> map_option (molar_mass_spec \<circ> dataset)
        (constructed protein_table ''protein'' sequence_kw caller_heap) = Some NaN"
  by (simp add: protein_eval calc_molar_mass_def molar_mass_spec_def upt_conv_Cons)

end
